theory Spec2Isabelle
  imports Complex_Main
begin

section \<open>Values of the program\<close>

text \<open>
  The agent (\<^verbatim>\<open>agent.py\<close>) handles parsed JSON throughout: the request body, the backend's
  responses, the invoices and the payloads it posts are Python dicts, lists, strings, integers,
  floats, booleans and \<^verbatim>\<open>None\<close>. A dict is an association list (the first binding of a key is the
  one \<^verbatim>\<open>get\<close> reads). A string is a list of characters, each one code point below 256. A
  number is an integer or a float. The program never computes with a float: it compares it,
  tests it for zero and prints it. So a float is given by its exact value, a rational, and
  by the text that \<^verbatim>\<open>repr\<close> renders for it. The floats are the finite ones: \<^verbatim>\<open>NaN\<close> and the
  infinities, which JSON does not have, are not embedded.
\<close>

datatype json =
    JNull
  | JBool bool
  | JInt int
  | JFloat rat string
  | JStr string
  | JArr "json list"
  | JObj "(string \<times> json) list"

text \<open>
  A raised exception is a value. All of them carry the text that \<^verbatim>\<open>str(e)\<close> renders, except
  \<^verbatim>\<open>KeyError\<close>, which carries the missing key.
\<close>

datatype py_exn =
    RuntimeError string
  | AttributeError string
  | TypeError string
  | KeyError string
  | ValueError string
  | IndexError string

definition bindE :: "py_exn + 'a \<Rightarrow> ('a \<Rightarrow> py_exn + 'b) \<Rightarrow> py_exn + 'b" where
  "bindE m f = (case m of Inl e \<Rightarrow> Inl e | Inr v \<Rightarrow> f v)"

subsection \<open>Python's operations on these values\<close>

fun truthy :: "json \<Rightarrow> bool" where
  "truthy JNull = False"
| "truthy (JBool b) = b"
| "truthy (JInt n) = (n \<noteq> 0)"
| "truthy (JFloat q t) = (q \<noteq> 0)"
| "truthy (JStr s) = (s \<noteq> [])"
| "truthy (JArr xs) = (xs \<noteq> [])"
| "truthy (JObj kvs) = (kvs \<noteq> [])"

fun type_name :: "json \<Rightarrow> string" where
  "type_name JNull = ''NoneType''"
| "type_name (JBool b) = ''bool''"
| "type_name (JInt n) = ''int''"
| "type_name (JFloat q t) = ''float''"
| "type_name (JStr s) = ''str''"
| "type_name (JArr xs) = ''list''"
| "type_name (JObj kvs) = ''dict''"

definition quoted :: "string \<Rightarrow> string" where
  "quoted s = CHR 0x27 # s @ [CHR 0x27]"

definition no_attribute :: "json \<Rightarrow> string \<Rightarrow> py_exn" where
  "no_attribute v a =
     AttributeError (quoted (type_name v) @ '' object has no attribute '' @ quoted a)"

text \<open>\<^verbatim>\<open>v.get(k, d)\<close>; \<^verbatim>\<open>v.get(k)\<close> is \<^verbatim>\<open>v.get(k, None)\<close>. Only a dict has the method.\<close>

fun py_get_default :: "json \<Rightarrow> string \<Rightarrow> json \<Rightarrow> py_exn + json" where
  "py_get_default (JObj kvs) k d = Inr (case map_of kvs k of Some v \<Rightarrow> v | None \<Rightarrow> d)"
| "py_get_default v k d = Inl (no_attribute v ''get'')"

definition py_get :: "json \<Rightarrow> string \<Rightarrow> py_exn + json" where
  "py_get v k = py_get_default v k JNull"

text \<open>\<^verbatim>\<open>isinstance(v, dict)\<close>\<close>

fun is_dict :: "json \<Rightarrow> bool" where
  "is_dict (JObj kvs) = True"
| "is_dict v = False"

text \<open>\<^verbatim>\<open>x[k]\<close> on a value already known to be a dict or not.\<close>

fun py_item :: "json \<Rightarrow> string \<Rightarrow> py_exn + json" where
  "py_item (JObj kvs) k = (case map_of kvs k of Some v \<Rightarrow> Inr v | None \<Rightarrow> Inl (KeyError k))"
| "py_item (JStr s) k = Inl (TypeError ''string indices must be integers'')"
| "py_item (JArr xs) k = Inl (TypeError ''list indices must be integers or slices, not str'')"
| "py_item v k = Inl (TypeError (quoted (type_name v) @ '' object is not subscriptable''))"

subsection \<open>Rendering: \<^verbatim>\<open>str\<close> and \<^verbatim>\<open>repr\<close>\<close>

fun show_nat :: "nat \<Rightarrow> string" where
  "show_nat n =
     (if n < 10 then [char_of (48 + n)] else show_nat (n div 10) @ [char_of (48 + n mod 10)])"

definition show_int :: "int \<Rightarrow> string" where
  "show_int i = (if i < 0 then CHR ''-'' # show_nat (nat (- i)) else show_nat (nat i))"

definition hex2 :: "nat \<Rightarrow> string" where
  "hex2 n = [''0123456789abcdef'' ! (n div 16), ''0123456789abcdef'' ! (n mod 16)]"

definition printable :: "char \<Rightarrow> bool" where
  "printable c = (let n = (of_char c :: nat) in (32 \<le> n \<and> n < 127) \<or> (161 \<le> n \<and> n \<noteq> 173))"

definition repr_char :: "char \<Rightarrow> char \<Rightarrow> string" where
  "repr_char q c =
     (if c = q \<or> c = CHR 0x5C then [CHR 0x5C, c]
      else if c = CHR 0x09 then [CHR 0x5C, CHR ''t'']
      else if c = CHR 0x0A then [CHR 0x5C, CHR ''n'']
      else if c = CHR 0x0D then [CHR 0x5C, CHR ''r'']
      else if printable c then [c]
      else CHR 0x5C # CHR ''x'' # hex2 (of_char c))"

definition repr_str :: "string \<Rightarrow> string" where
  "repr_str s =
     (let q = (if CHR 0x27 \<in> set s \<and> CHR 0x22 \<notin> set s then CHR 0x22 else CHR 0x27)
      in q # concat (map (repr_char q) s) @ [q])"

fun py_repr :: "json \<Rightarrow> string"
  and repr_list :: "json list \<Rightarrow> string"
  and repr_items :: "(string \<times> json) list \<Rightarrow> string" where
  "py_repr JNull = ''None''"
| "py_repr (JBool b) = (if b then ''True'' else ''False'')"
| "py_repr (JInt n) = show_int n"
| "py_repr (JFloat q t) = t"
| "py_repr (JStr s) = repr_str s"
| "py_repr (JArr xs) = ''['' @ repr_list xs @ '']''"
| "py_repr (JObj kvs) = ''{'' @ repr_items kvs @ ''}''"
| "repr_list [] = []"
| "repr_list (x # xs) = py_repr x @ (if xs = [] then [] else '', '' @ repr_list xs)"
| "repr_items [] = []"
| "repr_items (kv # kvs) =
     repr_str (fst kv) @ '': '' @ py_repr (snd kv) @ (if kvs = [] then [] else '', '' @ repr_items kvs)"

fun py_str :: "json \<Rightarrow> string" where
  "py_str (JStr s) = s"
| "py_str v = py_repr v"

definition exn_str :: "py_exn \<Rightarrow> string" where
  "exn_str e = (case e of RuntimeError m \<Rightarrow> m | AttributeError m \<Rightarrow> m | TypeError m \<Rightarrow> m
     | KeyError k \<Rightarrow> repr_str k | ValueError m \<Rightarrow> m | IndexError m \<Rightarrow> m)"

subsection \<open>Strings: \<^verbatim>\<open>lower\<close>, \<^verbatim>\<open>strip\<close>, \<^verbatim>\<open>in\<close>\<close>

text \<open>
  On code points below 256, \<^verbatim>\<open>str.lower\<close> moves A--Z and the accented capitals
  (192--222 except the multiplication sign 215) up by 32; \<^verbatim>\<open>str.strip\<close> and the pattern
  class \<^verbatim>\<open>\s\<close> take the same characters for white space; \<^verbatim>\<open>\d\<close> is 0--9.
\<close>

definition lower_char :: "char \<Rightarrow> char" where
  "lower_char c =
     (let n = (of_char c :: nat)
      in if (65 \<le> n \<and> n \<le> 90) \<or> (192 \<le> n \<and> n \<le> 222 \<and> n \<noteq> 215) then char_of (n + 32) else c)"

definition is_space :: "char \<Rightarrow> bool" where
  "is_space c = (let n = (of_char c :: nat)
     in (9 \<le> n \<and> n \<le> 13) \<or> (28 \<le> n \<and> n \<le> 32) \<or> n = 133 \<or> n = 160)"

definition is_digit :: "char \<Rightarrow> bool" where
  "is_digit c = (let n = (of_char c :: nat) in 48 \<le> n \<and> n \<le> 57)"

definition str_lower :: "string \<Rightarrow> string" where
  "str_lower s = map lower_char s"

definition str_strip :: "string \<Rightarrow> string" where
  "str_strip s = rev (dropWhile is_space (rev (dropWhile is_space s)))"

fun starts_with :: "string \<Rightarrow> string \<Rightarrow> bool" where
  "starts_with [] s = True"
| "starts_with (p # ps) [] = False"
| "starts_with (p # ps) (c # cs) = (p = c \<and> starts_with ps cs)"

text \<open>\<^verbatim>\<open>p in s\<close> for two strings: \<open>p\<close> occurs in \<open>s\<close> as a contiguous run.\<close>

fun str_contains :: "string \<Rightarrow> string \<Rightarrow> bool" where
  "str_contains p [] = (p = [])"
| "str_contains p (c # cs) = (starts_with p (c # cs) \<or> str_contains p cs)"

text \<open>\<^verbatim>\<open>v.lower()\<close>: only a string has the method.\<close>

fun py_lower :: "json \<Rightarrow> py_exn + string" where
  "py_lower (JStr s) = Inr (str_lower s)"
| "py_lower v = Inl (no_attribute v ''lower'')"

text \<open>
  \<^verbatim>\<open>sid in v\<close> for a string \<open>sid\<close>: a substring test on a string, membership in a list,
  a key test on a dict, and a \<^verbatim>\<open>TypeError\<close> on anything else.
\<close>

fun py_in :: "string \<Rightarrow> json \<Rightarrow> py_exn + bool" where
  "py_in p (JStr s) = Inr (str_contains p s)"
| "py_in p (JArr xs) = Inr (JStr p \<in> set xs)"
| "py_in p (JObj kvs) = Inr (p \<in> set (map fst kvs))"
| "py_in p v = Inl (TypeError (''argument of type '' @ quoted (type_name v) @ '' is not iterable''))"

text \<open>\<^verbatim>\<open>for inv in v\<close>: the elements of a list, the characters of a string, the keys of a dict.\<close>

fun py_iter :: "json \<Rightarrow> py_exn + json list" where
  "py_iter (JArr xs) = Inr xs"
| "py_iter (JStr s) = Inr (map (\<lambda>c. JStr [c]) s)"
| "py_iter (JObj kvs) = Inr (map (\<lambda>kv. JStr (fst kv)) kvs)"
| "py_iter v = Inl (TypeError (quoted (type_name v) @ '' object is not iterable''))"

subsection \<open>Comparison: \<^verbatim>\<open>==\<close> and \<^verbatim>\<open><\<close>\<close>

text \<open>
  \<^verbatim>\<open>True\<close> and \<^verbatim>\<open>False\<close> are the integers 1 and 0 in comparisons, and integers and
  floats compare by their exact values. Two lists are ordered
  by their first pair of unequal elements, or by length; two strings by code points. Any other
  pairing raises \<^verbatim>\<open>TypeError\<close>.
\<close>

fun num_of :: "json \<Rightarrow> rat option" where
  "num_of (JBool b) = Some (if b then 1 else 0)"
| "num_of (JInt n) = Some (of_int n)"
| "num_of (JFloat q t) = Some q"
| "num_of v = None"

fun py_eq :: "json \<Rightarrow> json \<Rightarrow> bool"
  and py_eq_list :: "json list \<Rightarrow> json list \<Rightarrow> bool"
  and py_eq_items :: "(string \<times> json) list \<Rightarrow> (string \<times> json) list \<Rightarrow> bool" where
  "py_eq JNull y = (y = JNull)"
| "py_eq (JBool b) y = (num_of y = Some (if b then 1 else 0))"
| "py_eq (JInt n) y = (num_of y = Some (of_int n))"
| "py_eq (JFloat q t) y = (num_of y = Some q)"
| "py_eq (JStr s) y = (y = JStr s)"
| "py_eq (JArr xs) y = (case y of JArr ys \<Rightarrow> py_eq_list xs ys | _ \<Rightarrow> False)"
| "py_eq (JObj kvs) y = (case y of JObj kws \<Rightarrow>
       set (map fst kvs) = set (map fst kws) \<and> py_eq_items kvs kws | _ \<Rightarrow> False)"
| "py_eq_list [] ys = (ys = [])"
| "py_eq_list (x # xs) ys =
     (case ys of [] \<Rightarrow> False | y # ys' \<Rightarrow> py_eq x y \<and> py_eq_list xs ys')"
| "py_eq_items [] kws = True"
| "py_eq_items (kv # rest) kws =
     ((case map_of kws (fst kv) of Some w \<Rightarrow> py_eq (snd kv) w | None \<Rightarrow> False)
      \<and> py_eq_items rest kws)"

fun str_lt :: "string \<Rightarrow> string \<Rightarrow> bool" where
  "str_lt [] t = (t \<noteq> [])"
| "str_lt (c # cs) [] = False"
| "str_lt (c # cs) (d # ds) = ((of_char c :: nat) < of_char d \<or> (c = d \<and> str_lt cs ds))"

definition not_supported :: "json \<Rightarrow> json \<Rightarrow> py_exn" where
  "not_supported x y =
     TypeError (quoted ''<'' @ '' not supported between instances of ''
                @ quoted (type_name x) @ '' and '' @ quoted (type_name y))"

fun py_lt :: "json \<Rightarrow> json \<Rightarrow> py_exn + bool"
  and py_lt_list :: "json list \<Rightarrow> json list \<Rightarrow> py_exn + bool" where
  "py_lt (JArr xs) y =
     (case y of JArr ys \<Rightarrow> py_lt_list xs ys | _ \<Rightarrow> Inl (not_supported (JArr xs) y))"
| "py_lt (JStr s) y =
     (case y of JStr t \<Rightarrow> Inr (str_lt s t) | _ \<Rightarrow> Inl (not_supported (JStr s) y))"
| "py_lt (JInt n) y =
     (case num_of y of Some m \<Rightarrow> Inr (of_int n < m) | None \<Rightarrow> Inl (not_supported (JInt n) y))"
| "py_lt (JFloat q t) y =
     (case num_of y of Some m \<Rightarrow> Inr (q < m) | None \<Rightarrow> Inl (not_supported (JFloat q t) y))"
| "py_lt (JBool b) y =
     (case num_of y of Some m \<Rightarrow> Inr ((if b then 1 else 0) < m)
      | None \<Rightarrow> Inl (not_supported (JBool b) y))"
| "py_lt JNull y = Inl (not_supported JNull y)"
| "py_lt (JObj kvs) y = Inl (not_supported (JObj kvs) y)"
| "py_lt_list [] ys = Inr (ys \<noteq> [])"
| "py_lt_list (x # xs) ys =
     (case ys of [] \<Rightarrow> Inr False
      | y # ys' \<Rightarrow> if py_eq x y then py_lt_list xs ys' else py_lt x y)"

subsection \<open>\<^verbatim>\<open>sorted(xs, key=..., reverse=...)\<close>\<close>

text \<open>
  \<^verbatim>\<open>sorted\<close> first computes the key of every element, in order, and the first key that
  raises ends the call. A list of fewer than two elements is returned without any comparison.
  Otherwise the keys are compared with \<^verbatim>\<open><\<close> only; a comparison that raises ends the call,
  and when all keys compare the result is the stable arrangement in ascending key order, which
  the insertion below computes. With \<^verbatim>\<open>reverse=True\<close> the list is reversed, sorted the same
  way and reversed again, so equal keys keep their original order there too.

  Which pairs Python's sort compares depends on its schedule. Here every pair of keys is
  compared beforehand and the first exception found is the one raised: the sort raises exactly
  when some pair does not compare, though the pair it meets first may be another one.
\<close>

fun mapE :: "('a \<Rightarrow> py_exn + 'k) \<Rightarrow> 'a list \<Rightarrow> py_exn + 'k list" where
  "mapE f [] = Inr []"
| "mapE f (x # xs) =
     (case f x of Inl e \<Rightarrow> Inl e
      | Inr k \<Rightarrow> (case mapE f xs of Inl e \<Rightarrow> Inl e | Inr ks \<Rightarrow> Inr (k # ks)))"

fun first_failure :: "(py_exn + bool) list \<Rightarrow> py_exn option" where
  "first_failure [] = None"
| "first_failure (Inl e # rs) = Some e"
| "first_failure (Inr b # rs) = first_failure rs"

definition compare_all :: "('k \<Rightarrow> 'k \<Rightarrow> py_exn + bool) \<Rightarrow> 'k list \<Rightarrow> py_exn option" where
  "compare_all cmp ks = first_failure (concat (map (\<lambda>a. map (\<lambda>b. cmp a b) ks) ks))"

fun insort_lt :: "('k \<Rightarrow> 'k \<Rightarrow> bool) \<Rightarrow> 'k \<times> 'a \<Rightarrow> ('k \<times> 'a) list \<Rightarrow> ('k \<times> 'a) list" where
  "insort_lt lt x [] = [x]"
| "insort_lt lt x (y # ys) =
     (if lt (fst y) (fst x) then y # insort_lt lt x ys else x # y # ys)"

definition stable_sort :: "('k \<Rightarrow> 'k \<Rightarrow> bool) \<Rightarrow> ('k \<times> 'a) list \<Rightarrow> ('k \<times> 'a) list" where
  "stable_sort lt ps = foldr (insort_lt lt) ps []"

definition py_sorted ::
  "('a \<Rightarrow> py_exn + 'k) \<Rightarrow> ('k \<Rightarrow> 'k \<Rightarrow> py_exn + bool) \<Rightarrow> bool \<Rightarrow> 'a list \<Rightarrow> py_exn + 'a list" where
  "py_sorted key cmp reverse xs =
     bindE (mapE key xs) (\<lambda>ks.
       if length xs < 2 then Inr xs
       else case compare_all cmp ks of
         Some e \<Rightarrow> Inl e
       | None \<Rightarrow>
           let lt = (\<lambda>a b. cmp a b = Inr True); ps = zip ks xs
           in Inr (map snd (if reverse then rev (stable_sort lt (rev ps)) else stable_sort lt ps)))"

text \<open>\<^verbatim>\<open>xs[0]\<close>\<close>

definition py_first :: "'a list \<Rightarrow> py_exn + 'a" where
  "py_first xs = (case xs of [] \<Rightarrow> Inl (IndexError ''list index out of range'') | x # _ \<Rightarrow> Inr x)"

section \<open>The patterns of the resolver\<close>

text \<open>
  \<^verbatim>\<open>re.search(p, s)\<close> tries the pattern at every position of \<open>s\<close> from the left and stops
  at the first position where it matches; the functions below give group 1 of the match.
  \<^verbatim>\<open>(\d{2,6})\<close> takes as many digits as there are, six at most, and needs two.
  \<^verbatim>\<open>[-\s]?\<close> first tries to take one hyphen or white-space character and, when the rest of the
  pattern then fails, tries again without taking it.
\<close>

definition digits_2_6 :: "string \<Rightarrow> string option" where
  "digits_2_6 s =
     (let ds = takeWhile is_digit s in if 2 \<le> length ds then Some (take 6 ds) else None)"

definition inv_pattern :: "string \<Rightarrow> string option" where
  "inv_pattern s =
     (if starts_with ''inv'' s then
        (case drop 3 s of
           [] \<Rightarrow> None
         | c # r \<Rightarrow>
             (case (if c = CHR ''-'' \<or> is_space c then digits_2_6 r else None) of
                Some g \<Rightarrow> Some g
              | None \<Rightarrow> digits_2_6 (c # r)))
      else None)"

fun re_search :: "(string \<Rightarrow> string option) \<Rightarrow> string \<Rightarrow> string option" where
  "re_search pat [] = pat []"
| "re_search pat (c # cs) =
     (case pat (c # cs) of Some g \<Rightarrow> Some g | None \<Rightarrow> re_search pat cs)"

section \<open>The resolver: \<^verbatim>\<open>find_invoice_by_spoken_local\<close>\<close>

text \<open>
  \<^verbatim>\<open>datetime.fromisoformat\<close> and the order of the values it returns belong to Python's
  library; they are parameters of the resolver. Comparing two datetimes can raise (one with a
  UTC offset against one without).
\<close>

record 'd datetime_module =
  fromisoformat :: "string \<Rightarrow> py_exn + 'd"
  dt_less :: "'d \<Rightarrow> 'd \<Rightarrow> py_exn + bool"

text \<open>
  The function is cut at its tiers, each one a definition that returns or hands over to the
  next (\<open>digits_tier\<close>, \<open>text_tier\<close>, \<open>keyword_tier\<close>). The loop variable \<^verbatim>\<open>inv\<close> of the
  source is \<open>iv\<close> here.

  \<^verbatim>\<open>for inv in items: if test(inv): return inv\<close>
\<close>

fun first_match :: "(json \<Rightarrow> py_exn + bool) \<Rightarrow> json list \<Rightarrow> py_exn + json option" where
  "first_match test [] = Inr None"
| "first_match test (iv # rest) =
     (case test iv of
        Inl e \<Rightarrow> Inl e
      | Inr hit \<Rightarrow> if hit then Inr (Some iv) else first_match test rest)"

text \<open>\<^verbatim>\<open>[i for i in items if test(i)]\<close>\<close>

fun filterE :: "(json \<Rightarrow> py_exn + bool) \<Rightarrow> json list \<Rightarrow> py_exn + json list" where
  "filterE test [] = Inr []"
| "filterE test (i # rest) =
     (case test i of
        Inl e \<Rightarrow> Inl e
      | Inr keep \<Rightarrow>
          (case filterE test rest of
             Inl e \<Rightarrow> Inl e
           | Inr kept \<Rightarrow> Inr (if keep then i # kept else kept)))"

text \<open>
  Tier 1:
  \<^verbatim>\<open>str(inv.get('shortId')) == sid or (inv.get('invoiceId') and sid in inv.get('invoiceId'))\<close>
\<close>

definition tier1_test :: "string \<Rightarrow> json \<Rightarrow> py_exn + bool" where
  "tier1_test sid iv =
     bindE (py_get iv ''shortId'') (\<lambda>short.
       if py_str short = sid then Inr True
       else bindE (py_get iv ''invoiceId'') (\<lambda>iid.
         if truthy iid then py_in sid iid else Inr False))"

text \<open>Tier 2: \<^verbatim>\<open>str(inv.get('shortId')) == sid\<close>\<close>

definition tier2_test :: "string \<Rightarrow> json \<Rightarrow> py_exn + bool" where
  "tier2_test sid iv = bindE (py_get iv ''shortId'') (\<lambda>short. Inr (py_str short = sid))"

text \<open>Tier 3: \<^verbatim>\<open>s in inv.get(k,'').lower()\<close> for vendor, label, description, in this order.\<close>

definition field_has :: "string \<Rightarrow> json \<Rightarrow> string \<Rightarrow> py_exn + bool" where
  "field_has s iv k =
     bindE (py_get_default iv k (JStr [])) (\<lambda>v.
       bindE (py_lower v) (\<lambda>l. Inr (str_contains s l)))"

definition tier3_test :: "string \<Rightarrow> json \<Rightarrow> py_exn + bool" where
  "tier3_test s iv =
     bindE (field_has s iv ''vendor'') (\<lambda>a.
       if a then Inr True
       else bindE (field_has s iv ''label'') (\<lambda>b.
         if b then Inr True else field_has s iv ''description''))"

text \<open>Tier 4: the unpaid invoices and the two sort keys.\<close>

definition not_paid_test :: "json \<Rightarrow> py_exn + bool" where
  "not_paid_test i = bindE (py_get i ''paid'') (\<lambda>p. Inr (\<not> truthy p))"

definition due_key :: "'d datetime_module \<Rightarrow> json \<Rightarrow> py_exn + 'd" where
  "due_key dt x =
     bindE (py_item x ''dueDate'') (\<lambda>v.
       case v of
         JStr t \<Rightarrow> fromisoformat dt t
       | _ \<Rightarrow> Inl (TypeError ''fromisoformat: argument must be str''))"

definition amount_key :: "json \<Rightarrow> py_exn + json" where
  "amount_key x = py_item x ''amount''"

definition sorted_first ::
  "('a \<Rightarrow> py_exn + 'k) \<Rightarrow> ('k \<Rightarrow> 'k \<Rightarrow> py_exn + bool) \<Rightarrow> bool \<Rightarrow> 'a list \<Rightarrow> py_exn + 'a option" where
  "sorted_first key cmp reverse xs =
     bindE (py_sorted key cmp reverse xs) (\<lambda>ys. bindE (py_first ys) (\<lambda>y. Inr (Some y)))"

definition keyword_tier :: "'d datetime_module \<Rightarrow> string \<Rightarrow> json list \<Rightarrow> py_exn + json option" where
  "keyword_tier dt s items =
     bindE (filterE not_paid_test items) (\<lambda>not_paid.
       if not_paid = [] then Inr None
       else if str_contains ''last'' s \<or> str_contains ''latest'' s \<or> str_contains ''most recent'' s
         then sorted_first (due_key dt) (dt_less dt) True not_paid
       else if str_contains ''oldest'' s \<or> str_contains ''earliest'' s
         then sorted_first (due_key dt) (dt_less dt) False not_paid
       else if str_contains ''largest'' s \<or> str_contains ''biggest'' s \<or> str_contains ''highest'' s
         then sorted_first amount_key py_lt True not_paid
       else if str_contains ''smallest'' s \<or> str_contains ''small'' s
         then sorted_first amount_key py_lt False not_paid
       else Inr None)"

definition text_tier :: "'d datetime_module \<Rightarrow> string \<Rightarrow> json \<Rightarrow> py_exn + json option" where
  "text_tier dt s invoices_list =
     bindE (py_iter invoices_list) (\<lambda>items.
       bindE (first_match (tier3_test s) items) (\<lambda>r.
         case r of Some iv \<Rightarrow> Inr (Some iv) | None \<Rightarrow> keyword_tier dt s items))"

definition digits_tier :: "'d datetime_module \<Rightarrow> string \<Rightarrow> json \<Rightarrow> py_exn + json option" where
  "digits_tier dt s invoices_list =
     (case re_search digits_2_6 s of
        None \<Rightarrow> text_tier dt s invoices_list
      | Some sid \<Rightarrow>
          bindE (py_iter invoices_list) (\<lambda>items.
            bindE (first_match (tier2_test sid) items) (\<lambda>r.
              case r of Some iv \<Rightarrow> Inr (Some iv) | None \<Rightarrow> text_tier dt s invoices_list)))"

definition find_invoice_by_spoken_local ::
  "'d datetime_module \<Rightarrow> json \<Rightarrow> json \<Rightarrow> py_exn + json option" where
  "find_invoice_by_spoken_local dt ref invoices_list =
     (if \<not> truthy ref then Inr None
      else bindE (py_lower ref) (\<lambda>l.
        let s = str_strip l
        in case re_search inv_pattern s of
             None \<Rightarrow> digits_tier dt s invoices_list
           | Some sid \<Rightarrow>
               bindE (py_iter invoices_list) (\<lambda>items.
                 bindE (first_match (tier1_test sid) items) (\<lambda>r.
                   case r of
                     Some iv \<Rightarrow> Inr (Some iv)
                   | None \<Rightarrow> digits_tier dt s invoices_list))))"

section \<open>The backend\<close>

text \<open>
  \<^verbatim>\<open>backend_get\<close> and \<^verbatim>\<open>backend_post\<close> send one HTTP request each. The backend is any
  function from its own state and a request to an answer and a new state; the answer is the
  parsed JSON of a successful response, or the text of the \<^verbatim>\<open>requests.RequestException\<close>
  (connection refused, timeout, non-2xx status). Every request sent is appended to a log,
  together with its answer.
\<close>

datatype call = Get string json | Post string json

type_synonym answer = "string + json"

type_synonym 'b backend = "'b \<Rightarrow> call \<Rightarrow> answer \<times> 'b"

record 'b world =
  bk_state :: 'b
  calls :: "(call \<times> answer) list"

definition send :: "'b backend \<Rightarrow> call \<Rightarrow> 'b world \<Rightarrow> answer \<times> 'b world" where
  "send bk c w =
     (case bk (bk_state w) c of
        (r, b') \<Rightarrow> (r, \<lparr>bk_state = b', calls = calls w @ [(c, r)]\<rparr>))"

definition backend_get :: "'b backend \<Rightarrow> string \<Rightarrow> json \<Rightarrow> 'b world \<Rightarrow> (py_exn + json) \<times> 'b world" where
  "backend_get bk path params w =
     (case send bk (Get path params) w of
        (Inl e, w') \<Rightarrow> (Inl (RuntimeError (''backend_get error: '' @ e)), w')
      | (Inr j, w') \<Rightarrow> (Inr j, w'))"

definition backend_post :: "'b backend \<Rightarrow> string \<Rightarrow> json \<Rightarrow> 'b world \<Rightarrow> (py_exn + json) \<times> 'b world" where
  "backend_post bk path payload w =
     (case send bk (Post path payload) w of
        (Inl e, w') \<Rightarrow> (Inl (RuntimeError (''backend_post error: '' @ e)), w')
      | (Inr j, w') \<Rightarrow> (Inr j, w'))"

section \<open>Responses\<close>

text \<open>
  A handler returns a JSON body with a status, or lets an exception escape (Flask then answers
  with status 500).
\<close>

datatype response = Response json nat | Unhandled py_exn

definition py_or :: "json \<Rightarrow> json \<Rightarrow> json" where
  "py_or a b = (if truthy a then a else b)"

definition assistant_ok :: "json \<Rightarrow> json \<Rightarrow> json \<Rightarrow> json \<Rightarrow> response" where
  "assistant_ok data speak cards message =
     Response (JObj
       [(''success'', JBool True),
        (''message'', py_or message (JStr ''ok'')),
        (''data'', py_or data (JObj [])),
        (''speak'', py_or speak (JStr [])),
        (''cards'', py_or cards (JArr []))]) 200"

definition assistant_err :: "string \<Rightarrow> nat \<Rightarrow> response" where
  "assistant_err msg code = Response (JObj [(''success'', JBool False), (''message'', JStr msg)]) code"

section \<open>The payment orchestration: \<^verbatim>\<open>agent_pay_invoice\<close>\<close>

text \<open>
  The handler is one function in the source; it is cut here at its four \<^verbatim>\<open>try\<close> blocks,
  last block first. The bullet of the receipt card is the one character of the source above
  code point 255; it stands here as its three UTF-8 bytes.
\<close>

definition bullet :: string where
  "bullet = [CHR 0xE2, CHR 0x80, CHR 0xA2]"

text \<open>The body of the last \<^verbatim>\<open>try\<close>, after the POST to \<^verbatim>\<open>/api/pay\<close> has returned.\<close>

definition payment_result :: "json \<Rightarrow> json \<Rightarrow> json \<Rightarrow> py_exn + response" where
  "payment_result invoiceId mandate_data pay_res =
     bindE (py_get pay_res ''data'') (\<lambda>d.
       let pay_data = py_or d pay_res
       in bindE (case pay_data of JObj kvs \<Rightarrow> py_get pay_data ''receipt'' | _ \<Rightarrow> Inr pay_data) (\<lambda>receipt.
            bindE (py_get receipt ''amount'') (\<lambda>amount.
              bindE (py_get receipt ''receiptId'') (\<lambda>receiptId.
                bindE (py_get pay_res ''message'') (\<lambda>message.
                  let speak = ''Payment successful. Invoice '' @ py_str invoiceId
                              @ '' paid for $'' @ py_str amount @ ''.'';
                      card = JObj
                        [(''title'', JStr (''Receipt '' @ py_str receiptId)),
                         (''subtitle'', JStr (''$'' @ py_str amount @ '' '' @ bullet @ '' '' @ py_str invoiceId)),
                         (''metadata'', receipt)]
                  in Inr (assistant_ok (JObj [(''cart'', mandate_data), (''payment'', pay_data)])
                            (JStr speak) (JArr [card]) message))))))"

definition execute_payment ::
  "'b backend \<Rightarrow> json \<Rightarrow> json \<Rightarrow> json \<Rightarrow> json \<Rightarrow> 'b world \<Rightarrow> response \<times> 'b world" where
  "execute_payment bk invoiceId mandate_data signedMandate mandateId w =
     (let pay_payload = JObj
            [(''mandateId'', mandateId),
             (''signedMandate'', signedMandate),
             (''invoiceId'', invoiceId),
             (''paymentMethod'', JStr ''agent-demo-card'')]
      in case backend_post bk ''/api/pay'' pay_payload w of
           (r, w') \<Rightarrow>
             (case bindE r (payment_result invoiceId mandate_data) of
                Inl e \<Rightarrow> (assistant_err (''Payment failed: '' @ exn_str e) 502, w')
              | Inr resp \<Rightarrow> (resp, w')))"

text \<open>The body of the third \<^verbatim>\<open>try\<close>, after the POST to \<^verbatim>\<open>/api/mandates\<close> has returned.\<close>

definition mandate_result :: "json \<Rightarrow> py_exn + json \<times> json \<times> json" where
  "mandate_result mandate_res =
     bindE (py_get mandate_res ''data'') (\<lambda>d.
       let mandate_data = py_or d mandate_res
       in bindE (py_get mandate_data ''signedMandate'') (\<lambda>signedMandate.
            bindE (py_get mandate_data ''mandateId'') (\<lambda>mandateId.
              Inr (mandate_data, signedMandate, mandateId))))"

definition cart_payload :: "json \<Rightarrow> json \<Rightarrow> json \<Rightarrow> json" where
  "cart_payload user invoiceId amount =
     JObj
       [(''userId'', user),
        (''type'', JStr ''Cart''),
        (''action'', JStr (''Pay invoice '' @ py_str invoiceId)),
        (''amountLimit'', amount),
        (''invoiceId'', invoiceId)]"

definition create_mandate ::
  "'b backend \<Rightarrow> json \<Rightarrow> json \<Rightarrow> json \<Rightarrow> 'b world \<Rightarrow> response \<times> 'b world" where
  "create_mandate bk user invoiceId invoice w =
     (case py_get invoice ''amount'' of
        Inl e \<Rightarrow> (Unhandled e, w)
      | Inr amount \<Rightarrow>
          (case backend_post bk ''/api/mandates'' (cart_payload user invoiceId amount) w of
             (r, w') \<Rightarrow>
               (case bindE r mandate_result of
                  Inl e \<Rightarrow> (assistant_err (''Failed to create cart mandate: '' @ exn_str e) 502, w')
                | Inr (mandate_data, signedMandate, mandateId) \<Rightarrow>
                    execute_payment bk invoiceId mandate_data signedMandate mandateId w')))"

text \<open>The body of the second \<^verbatim>\<open>try\<close>, after the GET of the invoice has returned.\<close>

definition lookup_result :: "json \<Rightarrow> py_exn + json" where
  "lookup_result inv_res =
     bindE (py_get_default inv_res ''data'' (JObj [])) (\<lambda>d. py_get d ''invoice'')"

definition lookup_invoice ::
  "'b backend \<Rightarrow> json \<Rightarrow> json \<Rightarrow> 'b world \<Rightarrow> response \<times> 'b world" where
  "lookup_invoice bk user invoiceId w =
     (case backend_get bk (''/api/invoices/'' @ py_str invoiceId) JNull w of
        (r, w') \<Rightarrow>
          (case bindE r lookup_result of
             Inl e \<Rightarrow> (assistant_err (''Invoice lookup failed: '' @ exn_str e) 404, w')
           | Inr invoice \<Rightarrow>
               if \<not> truthy invoice then (assistant_err ''Invoice not found'' 404, w')
               else create_mandate bk user invoiceId invoice w'))"

text \<open>The body of the first \<^verbatim>\<open>try\<close>, after the GET of the user's invoices has returned.\<close>

definition list_result :: "json \<Rightarrow> py_exn + json" where
  "list_result invs_res =
     bindE (py_get_default invs_res ''data'' (JObj [])) (\<lambda>d. py_get_default d ''invoices'' (JArr []))"

definition no_match_message :: string where
  "no_match_message = ''I couldn'' @ [CHR 0x27] @ ''t find an invoice matching that description''"

text \<open>From \<^verbatim>\<open>if voiceRef and not invoiceId\<close> to the end of the handler.\<close>

definition resolve_and_pay ::
  "'d datetime_module \<Rightarrow> 'b backend \<Rightarrow> json \<Rightarrow> json \<Rightarrow> json \<Rightarrow> json \<Rightarrow> 'b world \<Rightarrow> response \<times> 'b world" where
  "resolve_and_pay dt bk user invoiceId voiceRef invoice_list w =
     (if truthy voiceRef \<and> \<not> truthy invoiceId then
        (case find_invoice_by_spoken_local dt voiceRef invoice_list of
           Inl e \<Rightarrow> (Unhandled e, w)
         | Inr None \<Rightarrow> (assistant_err no_match_message 404, w)
         | Inr (Some iv) \<Rightarrow>
             if \<not> truthy iv then (assistant_err no_match_message 404, w)
             else (case py_get iv ''invoiceId'' of
                     Inl e \<Rightarrow> (Unhandled e, w)
                   | Inr invoiceId' \<Rightarrow>
                       if \<not> truthy invoiceId'
                       then (assistant_err ''invoiceId or voiceRef required'' 400, w)
                       else lookup_invoice bk user invoiceId' w))
      else if \<not> truthy invoiceId then (assistant_err ''invoiceId or voiceRef required'' 400, w)
      else lookup_invoice bk user invoiceId w)"

text \<open>\<open>request_json\<close> is what \<^verbatim>\<open>request.json\<close> yields: the parsed body of the request.\<close>

definition agent_pay_invoice ::
  "'d datetime_module \<Rightarrow> 'b backend \<Rightarrow> json \<Rightarrow> 'b world \<Rightarrow> response \<times> 'b world" where
  "agent_pay_invoice dt bk request_json w =
     (let body = py_or request_json (JObj [])
      in case bindE (py_get body ''userId'') (\<lambda>user.
                bindE (py_get body ''invoiceId'') (\<lambda>invoiceId.
                  bindE (py_get body ''voiceRef'') (\<lambda>voiceRef. Inr (user, invoiceId, voiceRef)))) of
           Inl e \<Rightarrow> (Unhandled e, w)
         | Inr (user, invoiceId, voiceRef) \<Rightarrow>
             if \<not> truthy user then (assistant_err ''userId required'' 400, w)
             else (case backend_get bk ''/api/invoices'' (JObj [(''userId'', user)]) w of
                     (r, w') \<Rightarrow>
                       (case bindE r list_result of
                          Inl e \<Rightarrow> (assistant_err (''Could not fetch invoices: '' @ exn_str e) 502, w')
                        | Inr invoice_list \<Rightarrow>
                            resolve_and_pay dt bk user invoiceId voiceRef invoice_list w')))"

section \<open>The tests of tier 1 in the words of the specification\<close>

text \<open>
  ``Match against shortId (string equality) or substring-containment within invoiceId'': the
  two tests on a candidate, and the shape of candidate on which the code computes them (an
  object whose invoiceId is a string or is absent).
\<close>

definition short_id_equals :: "string \<Rightarrow> json \<Rightarrow> bool" where
  "short_id_equals sid c =
     (case c of
        JObj kvs \<Rightarrow> py_str (case map_of kvs ''shortId'' of Some v \<Rightarrow> v | None \<Rightarrow> JNull) = sid
      | _ \<Rightarrow> False)"

definition invoice_id_contains :: "string \<Rightarrow> json \<Rightarrow> bool" where
  "invoice_id_contains sid c =
     (case c of
        JObj kvs \<Rightarrow> (case map_of kvs ''invoiceId'' of Some (JStr t) \<Rightarrow> str_contains sid t | _ \<Rightarrow> False)
      | _ \<Rightarrow> False)"

definition invoice_id_is_text :: "json \<Rightarrow> bool" where
  "invoice_id_is_text c =
     (case c of
        JObj kvs \<Rightarrow>
          (case map_of kvs ''invoiceId'' of Some (JStr t) \<Rightarrow> True | Some v \<Rightarrow> False | None \<Rightarrow> True)
      | _ \<Rightarrow> False)"

text \<open>
  The amount of a candidate as a number: what \<^verbatim>\<open>x['amount']\<close> holds when it is an integer, a
  float or a boolean, the values that Python orders among themselves as numbers.
\<close>

definition amount_of :: "json \<Rightarrow> rat option" where
  "amount_of c = (case amount_key c of Inl e \<Rightarrow> None | Inr v \<Rightarrow> num_of v)"

section \<open>An instance of the datetime parameter\<close>

text \<open>
  For evaluating the program on concrete inputs: a datetime is kept as its ISO text, and texts
  are ordered character by character, which is the order of the datetimes when the texts have
  one layout.
\<close>

definition iso_text_dates :: "string datetime_module" where
  "iso_text_dates = \<lparr>fromisoformat = (\<lambda>t. Inr t), dt_less = (\<lambda>a b. Inr (str_lt a b))\<rparr>"

section \<open>A scripted backend and sample data\<close>

text \<open>
  For evaluating the handler on concrete inputs: a backend whose state is the list of answers
  it has yet to give, one per request, and which refuses the connection once the list is used
  up; a request, and the answers of a backend holding one unpaid invoice.
\<close>

definition scripted :: "answer list backend" where
  "scripted script c =
     (case script of [] \<Rightarrow> (Inl ''connection refused'', []) | a # rest \<Rightarrow> (a, rest))"

definition acme_invoice :: json where
  "acme_invoice = JObj
     [(''invoiceId'', JStr ''INV-9''), (''shortId'', JStr ''9''), (''vendor'', JStr ''Acme''),
      (''amount'', JInt 120), (''paid'', JBool False)]"

definition pay_request :: json where
  "pay_request = JObj [(''userId'', JStr ''u1''), (''invoiceId'', JStr ''INV-9'')]"

definition invoices_answer :: answer where
  "invoices_answer = Inr (JObj [(''data'', JObj [(''invoices'', JArr [acme_invoice])])])"

definition invoice_answer :: answer where
  "invoice_answer = Inr (JObj [(''data'', JObj [(''invoice'', acme_invoice)])])"

definition mandate_answer :: answer where
  "mandate_answer =
     Inr (JObj [(''data'', JObj [(''mandateId'', JStr ''m-1''), (''signedMandate'', JStr ''sig'')])])"

definition receipt_answer :: answer where
  "receipt_answer =
     Inr (JObj [(''data'', JObj [(''receipt'', JObj [(''receiptId'', JStr ''r-1''), (''amount'', JInt 120)])]),
                (''message'', JStr ''paid'')])"

definition short_99 :: json where
  "short_99 = JObj [(''shortId'', JStr ''99'')]"

definition short_099 :: json where
  "short_099 = JObj [(''shortId'', JStr ''099'')]"

definition inv_7 :: json where
  "inv_7 = JObj [(''invoiceId'', JStr ''INV-2024-7''), (''shortId'', JStr ''7'')]"

definition inv_125 :: json where
  "inv_125 = JObj [(''invoiceId'', JStr ''INV-2024-125''), (''shortId'', JInt 125)]"

definition inv_126 :: json where
  "inv_126 = JObj [(''invoiceId'', JStr ''X-125-B''), (''shortId'', JStr ''126'')]"

definition paid_90 :: json where
  "paid_90 = JObj [(''invoiceId'', JStr ''INV-1''), (''vendor'', JStr ''Acme''),
                   (''amount'', JInt 90), (''paid'', JBool True)]"

definition unpaid_10 :: json where
  "unpaid_10 = JObj [(''invoiceId'', JStr ''INV-2''), (''vendor'', JStr ''Birch''),
                     (''amount'', JInt 10), (''paid'', JBool False)]"

definition unpaid_50 :: json where
  "unpaid_50 = JObj [(''invoiceId'', JStr ''INV-3''), (''vendor'', JStr ''Cedar''),
                     (''amount'', JInt 50), (''paid'', JBool False)]"

definition unpaid_30_5 :: json where
  "unpaid_30_5 = JObj [(''invoiceId'', JStr ''INV-4''), (''vendor'', JStr ''Dale''),
                       (''amount'', JFloat (61 / 2) ''30.5'')]"

definition later_50 :: json where
  "later_50 = JObj [(''invoiceId'', JStr ''INV-5''), (''vendor'', JStr ''Elm''),
                    (''amount'', JFloat 50 ''50.0''), (''paid'', JBool False)]"

definition largest_timber :: json where
  "largest_timber = JObj [(''invoiceId'', JStr ''INV-6''), (''vendor'', JStr ''Largest Timber Co''),
                          (''amount'', JInt 5), (''paid'', JBool True)]"

section \<open>Properties of the resolver\<close>

subsection \<open>The loop of a tier\<close>

lemma first_match_find:
  assumes "\<forall>c\<in>set items. test c = Inr (P c)"
  shows "first_match test items = Inr (List.find P items)"
  using assms by (induction items) auto

lemma first_match_find_raising:
  assumes "\<forall>c\<in>set items. test c = (if ok c then Inr (P c) else Inl (err c))"
  shows "first_match test items
       = (case List.find (\<lambda>c. \<not> ok c \<or> P c) items of
            Some c \<Rightarrow> if ok c then Inr (Some c) else Inl (err c)
          | None \<Rightarrow> Inr None)"
  using assms by (induction items) auto

lemma tier2_test_cases:
  "tier2_test sid c = (if is_dict c then Inr (short_id_equals sid c) else Inl (no_attribute c ''get''))"
  by (cases c) (simp_all add: tier2_test_def py_get_def bindE_def short_id_equals_def)

lemma first_match_none:
  assumes "\<forall>c\<in>set items. test c = Inr False"
  shows "first_match test items = Inr None"
  using assms by (induction items) auto

subsection \<open>White space and the empty pattern\<close>

lemma lower_char_space: "is_space c \<Longrightarrow> lower_char c = c"
  by (auto simp: is_space_def lower_char_def Let_def)

lemma strip_all_space:
  assumes "\<forall>c\<in>set r. is_space c"
  shows "str_strip (str_lower r) = []"
proof -
  have l: "str_lower r = r"
    using assms by (simp add: str_lower_def lower_char_space map_idI)
  have d: "dropWhile is_space r = []"
    using assms by simp
  show ?thesis unfolding str_strip_def l d by simp
qed

lemma str_contains_empty: "str_contains [] s = True"
  by (cases s) simp_all

text \<open>
  C8. For every candidate list (indeed for any second argument at all), resolving the empty
  reference string returns no match: the function returns at its first line.
\<close>

theorem empty_reference_no_match:
  "find_invoice_by_spoken_local dt (JStr []) invoices_list = Inr None"
  by (simp add: find_invoice_by_spoken_local_def)

text \<open>
  C6. Let tier 1 miss (its pattern does not match, or no candidate passes its test) and let
  the first run of 2 to 6 digits of the reference be \<open>sid\<close>. The resolver then returns the
  first candidate, in the order of the list, whose shortId is \<open>sid\<close> as a string, and goes
  on to tier 3 when there is none: tier 2 tests the equality of shortId and nothing else. (A
  candidate that is not an object, met before any such candidate, ends the call with the
  \<^verbatim>\<open>AttributeError\<close> of its \<^verbatim>\<open>get\<close>.) So \<^verbatim>\<open>"pay 99"\<close> resolves to the candidate with
  shortId \<^verbatim>\<open>"99"\<close> and never to the one with \<^verbatim>\<open>"099"\<close>, whichever of the two comes first.
\<close>

theorem pay_99_first_exact_short_id:
  assumes "\<forall>sid'. re_search inv_pattern (str_strip (str_lower r)) = Some sid'
             \<longrightarrow> (\<forall>c\<in>set items. tier1_test sid' c = Inr False)"
    and "re_search digits_2_6 (str_strip (str_lower r)) = Some sid"
  shows "find_invoice_by_spoken_local dt (JStr r) (JArr items)
         = (case List.find (\<lambda>c. \<not> is_dict c \<or> short_id_equals sid c) items of
              Some c \<Rightarrow> if is_dict c then Inr (Some c) else Inl (no_attribute c ''get'')
            | None \<Rightarrow> text_tier dt (str_strip (str_lower r)) (JArr items))
       \<and> find_invoice_by_spoken_local dt (JStr ''pay 99'') (JArr [short_99, short_099])
         = Inr (Some short_99)
       \<and> find_invoice_by_spoken_local dt (JStr ''pay 99'') (JArr [short_099, short_99])
         = Inr (Some short_99)"
proof (intro conjI)
  have r: "r \<noteq> []"
  proof
    assume e: "r = []"
    have n: "re_search digits_2_6 (str_strip (str_lower [])) = None"
      by code_simp
    from assms(2) have "re_search digits_2_6 (str_strip (str_lower [])) = Some sid"
      unfolding e .
    with n show False by simp
  qed
  have t2: "first_match (tier2_test sid) items
      = (case List.find (\<lambda>c. \<not> is_dict c \<or> short_id_equals sid c) items of
           Some c \<Rightarrow> if is_dict c then Inr (Some c) else Inl (no_attribute c ''get'')
         | None \<Rightarrow> Inr None)"
    by (intro first_match_find_raising) (simp add: tier2_test_cases)
  have dg: "digits_tier dt (str_strip (str_lower r)) (JArr items)
      = (case List.find (\<lambda>c. \<not> is_dict c \<or> short_id_equals sid c) items of
           Some c \<Rightarrow> if is_dict c then Inr (Some c) else Inl (no_attribute c ''get'')
         | None \<Rightarrow> text_tier dt (str_strip (str_lower r)) (JArr items))"
    using assms(2) by (simp add: digits_tier_def bindE_def t2 split: option.splits)
  have "find_invoice_by_spoken_local dt (JStr r) (JArr items)
      = digits_tier dt (str_strip (str_lower r)) (JArr items)"
    using assms(1) r
    by (simp add: find_invoice_by_spoken_local_def bindE_def first_match_none Let_def
             split: option.splits)
  with dg show "find_invoice_by_spoken_local dt (JStr r) (JArr items)
         = (case List.find (\<lambda>c. \<not> is_dict c \<or> short_id_equals sid c) items of
              Some c \<Rightarrow> if is_dict c then Inr (Some c) else Inl (no_attribute c ''get'')
            | None \<Rightarrow> text_tier dt (str_strip (str_lower r)) (JArr items))"
    by simp
  show "find_invoice_by_spoken_local dt (JStr ''pay 99'') (JArr [short_99, short_099])
         = Inr (Some short_99)"
    by code_simp
  show "find_invoice_by_spoken_local dt (JStr ''pay 99'') (JArr [short_099, short_99])
         = Inr (Some short_99)"
    by code_simp
qed

theorem pay_99_first_exact_short_id_witness:
  "re_search inv_pattern (str_strip (str_lower ''pay 99'')) = None
   \<and> re_search digits_2_6 (str_strip (str_lower ''pay 99'')) = Some ''99''
   \<and> List.find (\<lambda>c. \<not> is_dict c \<or> short_id_equals ''99'' c) [short_099, short_99, JNull]
       = Some short_99
   \<and> find_invoice_by_spoken_local iso_text_dates (JStr ''pay 99'')
        (JArr [short_099, short_99, JNull]) = Inr (Some short_99)"
proof -
  have p1: "re_search inv_pattern (str_strip (str_lower ''pay 99'')) = None"
    by code_simp
  have p2: "re_search digits_2_6 (str_strip (str_lower ''pay 99'')) = Some ''99''"
    by code_simp
  have t1: "\<forall>sid'. re_search inv_pattern (str_strip (str_lower ''pay 99'')) = Some sid'
      \<longrightarrow> (\<forall>c\<in>set [short_099, short_99, JNull]. tier1_test sid' c = Inr False)"
    unfolding p1 by simp
  have f: "List.find (\<lambda>c. \<not> is_dict c \<or> short_id_equals ''99'' c) [short_099, short_99, JNull]
      = Some short_99"
    by code_simp
  have d: "is_dict short_99"
    by code_simp
  from pay_99_first_exact_short_id [OF t1 p2, of iso_text_dates] p1 p2 f d
  show ?thesis by simp
qed

text \<open>
  C9, as the code has it. A reference that is not empty and holds white space only resolves to
  the first candidate of a non-empty list, when that candidate is an invoice object whose
  vendor is a string or is absent: the reference normalises to the empty string, which tier 3
  finds in the vendor of the first candidate.
\<close>

theorem whitespace_reference_first_candidate:
  assumes "r \<noteq> []" and "\<forall>c\<in>set r. is_space c"
    and "case map_of kvs ''vendor'' of Some v \<Rightarrow> (\<exists>t. v = JStr t) | None \<Rightarrow> True"
  shows "str_strip (str_lower r) = []
       \<and> find_invoice_by_spoken_local dt (JStr r) (JArr (JObj kvs # rest)) = Inr (Some (JObj kvs))"
proof -
  have s: "str_strip (str_lower r) = []"
    using assms(2) by (rule strip_all_space)
  have t3: "tier3_test [] (JObj kvs) = Inr True"
    using assms(3)
    by (auto simp: tier3_test_def field_has_def bindE_def str_contains_empty split: option.splits)
  have "text_tier dt [] (JArr (JObj kvs # rest)) = Inr (Some (JObj kvs))"
    by (simp add: text_tier_def bindE_def t3)
  then have "digits_tier dt [] (JArr (JObj kvs # rest)) = Inr (Some (JObj kvs))"
    by (simp add: digits_tier_def digits_2_6_def)
  then have "find_invoice_by_spoken_local dt (JStr r) (JArr (JObj kvs # rest)) = Inr (Some (JObj kvs))"
    using assms(1) by (simp add: find_invoice_by_spoken_local_def bindE_def s inv_pattern_def)
  with s show ?thesis by simp
qed

theorem whitespace_reference_first_candidate_witness:
  "'' '' \<noteq> [] \<and> list_all is_space '' ''
   \<and> find_invoice_by_spoken_local iso_text_dates (JStr '' '')
       (JArr [JObj [(''vendor'', JStr ''Acme''), (''paid'', JBool True)],
              JObj [(''vendor'', JStr ''Zed'')]])
     = Inr (Some (JObj [(''vendor'', JStr ''Acme''), (''paid'', JBool True)]))"
  using whitespace_reference_first_candidate
    [of "'' ''" "[(''vendor'', JStr ''Acme''), (''paid'', JBool True)]" iso_text_dates
        "[JObj [(''vendor'', JStr ''Zed'')]]"]
  by (simp add: is_space_def)

text \<open>
  C9 as stated fails: the first candidate carries \<^verbatim>\<open>"vendor": null\<close>, \<^verbatim>\<open>get\<close> returns
  \<^verbatim>\<open>None\<close> for the key that is present, and \<^verbatim>\<open>None.lower()\<close> raises.
\<close>

theorem whitespace_reference_null_vendor_counterexample:
  "find_invoice_by_spoken_local iso_text_dates (JStr '' '')
     (JArr [JObj [(''invoiceId'', JStr ''INV-1''), (''vendor'', JNull)]])
   = Inl (AttributeError (quoted ''NoneType'' @ '' object has no attribute '' @ quoted ''lower''))"
  by code_simp

subsection \<open>Tier 1\<close>

lemma digits_2_6_nonempty: "digits_2_6 s = Some g \<Longrightarrow> g \<noteq> []"
  by (auto simp: digits_2_6_def Let_def split: if_splits)

lemma inv_pattern_nonempty: "inv_pattern s = Some g \<Longrightarrow> g \<noteq> []"
  by (auto simp: inv_pattern_def dest: digits_2_6_nonempty split: if_splits list.splits option.splits)

lemma re_search_inv_nonempty: "re_search inv_pattern s = Some g \<Longrightarrow> g \<noteq> []"
  by (induction s) (auto dest: inv_pattern_nonempty split: option.splits)

lemma tier1_test_invoice:
  assumes "invoice_id_is_text c" and "sid \<noteq> []"
  shows "tier1_test sid c = Inr (short_id_equals sid c \<or> invoice_id_contains sid c)"
proof -
  from assms(1) obtain kvs where c: "c = JObj kvs"
    by (cases c) (auto simp: invoice_id_is_text_def)
  show ?thesis
  proof (cases "map_of kvs ''invoiceId''")
    case None
    then show ?thesis
      by (simp add: c tier1_test_def py_get_def bindE_def short_id_equals_def invoice_id_contains_def)
  next
    case (Some v)
    with assms(1) c obtain t where v: "v = JStr t"
      by (cases v) (auto simp: invoice_id_is_text_def)
    show ?thesis
      using Some v assms(2)
      by (cases t)
         (simp_all add: c tier1_test_def py_get_def bindE_def short_id_equals_def invoice_id_contains_def)
  qed
qed

text \<open>
  C3, as the code has it. When the reference matches the pattern of tier 1 and the candidates
  are invoice objects, the result is the first candidate, in the order of the list, whose
  shortId is the extracted digits or whose invoiceId contains them; tiers 2 to 4 are not
  consulted then. When no candidate passes, the resolver goes on with tier 2 and what follows
  it, as if tier 1 had not matched.
\<close>

theorem tier1_first_hit_or_fall_through:
  assumes "re_search inv_pattern (str_strip (str_lower r)) = Some sid"
    and "\<forall>c\<in>set items. invoice_id_is_text c"
  shows "find_invoice_by_spoken_local dt (JStr r) (JArr items)
       = (case List.find (\<lambda>c. short_id_equals sid c \<or> invoice_id_contains sid c) items of
            Some iv \<Rightarrow> Inr (Some iv)
          | None \<Rightarrow> digits_tier dt (str_strip (str_lower r)) (JArr items))"
proof -
  from assms(1) have sid: "sid \<noteq> []" by (rule re_search_inv_nonempty)
  have r: "r \<noteq> []"
  proof
    assume e: "r = []"
    have n: "re_search inv_pattern (str_strip (str_lower [])) = None"
      by code_simp
    from assms(1) have "re_search inv_pattern (str_strip (str_lower [])) = Some sid"
      unfolding e .
    with n show False by simp
  qed
  have "first_match (tier1_test sid) items
      = Inr (List.find (\<lambda>c. short_id_equals sid c \<or> invoice_id_contains sid c) items)"
    using assms(2) sid by (intro first_match_find) (simp add: tier1_test_invoice)
  with assms(1) r show ?thesis
    by (simp add: find_invoice_by_spoken_local_def bindE_def split: option.splits)
qed

theorem tier1_first_hit_or_fall_through_witness:
  "re_search inv_pattern (str_strip (str_lower ''Pay INV-125 '')) = Some ''125''
   \<and> list_all invoice_id_is_text [inv_7, inv_125, inv_126]
   \<and> find_invoice_by_spoken_local iso_text_dates (JStr ''Pay INV-125 '')
        (JArr [inv_7, inv_125, inv_126]) = Inr (Some inv_125)"
proof -
  have m: "re_search inv_pattern (str_strip (str_lower ''Pay INV-125 '')) = Some ''125''"
    by code_simp
  have wf: "list_all invoice_id_is_text [inv_7, inv_125, inv_126]"
    by code_simp
  then have wf': "\<forall>c\<in>set [inv_7, inv_125, inv_126]. invoice_id_is_text c"
    by simp
  have f: "List.find (\<lambda>c. short_id_equals ''125'' c \<or> invoice_id_contains ''125'' c)
             [inv_7, inv_125, inv_126] = Some inv_125"
    by code_simp
  from tier1_first_hit_or_fall_through [OF m wf', of iso_text_dates] m wf f
  show ?thesis by simp
qed

text \<open>
  C3 as stated fails: the reference matches tier 1 with the digits 345, no candidate passes,
  and tier 2 returns a candidate for the digits 12.
\<close>

theorem tier1_falls_through_counterexample:
  "re_search inv_pattern (str_strip (str_lower ''12 inv-345'')) = Some ''345''
   \<and> tier1_test ''345'' (JObj [(''invoiceId'', JStr ''INV-A''), (''shortId'', JStr ''12'')]) = Inr False
   \<and> re_search digits_2_6 (str_strip (str_lower ''12 inv-345'')) = Some ''12''
   \<and> find_invoice_by_spoken_local iso_text_dates (JStr ''12 inv-345'')
        (JArr [JObj [(''invoiceId'', JStr ''INV-A''), (''shortId'', JStr ''12'')]])
      = Inr (Some (JObj [(''invoiceId'', JStr ''INV-A''), (''shortId'', JStr ''12'')]))"
  by code_simp

subsection \<open>Tier 4: the largest amount\<close>

lemma filterE_total:
  assumes "\<forall>c\<in>set items. \<exists>b. test c = Inr b"
  shows "filterE test items = Inr (filter (\<lambda>c. test c = Inr True) items)"
  using assms by (induction items) auto

lemma mapE_total:
  assumes "\<forall>x\<in>set xs. key x = Inr (g x)"
  shows "mapE key xs = Inr (map g xs)"
  using assms by (induction xs) auto

lemma first_failure_none:
  assumes "\<forall>r\<in>set rs. \<exists>b. r = Inr b"
  shows "first_failure rs = None"
  using assms by (induction rs rule: first_failure.induct) auto

lemma py_lt_numbers:
  assumes "num_of x = Some p" and "num_of y = Some q"
  shows "py_lt x y = Inr (p < q)"
  using assms by (cases x) (auto split: if_splits)

lemma compare_all_numbers:
  assumes "\<forall>k\<in>set ks. \<exists>q. num_of k = Some q"
  shows "compare_all py_lt ks = None"
proof -
  have "\<exists>r. py_lt x y = Inr r" if "x \<in> set ks" and "y \<in> set ks" for x y
  proof -
    from that assms obtain p q where "num_of x = Some p" "num_of y = Some q" by blast
    then show ?thesis by (simp add: py_lt_numbers)
  qed
  then show ?thesis
    unfolding compare_all_def by (intro first_failure_none) auto
qed

lemma set_insort_lt: "set (insort_lt lt x ys) = insert x (set ys)"
  by (induction ys) auto

lemma insort_lt_nonempty: "insort_lt lt x ys \<noteq> []"
  by (cases ys) auto

lemma set_stable_sort: "set (stable_sort lt ps) = set ps"
  by (induction ps) (auto simp: stable_sort_def set_insort_lt)

lemma stable_sort_Cons: "stable_sort lt (p # ps) = insort_lt lt p (stable_sort lt ps)"
  by (simp add: stable_sort_def)

lemma last_insort_lt:
  "last (insort_lt lt x ys) = (if \<forall>y\<in>set ys. lt (fst y) (fst x) then x else last ys)"
  by (induction ys) (auto simp: insort_lt_nonempty)

lemma last_stable_sort:
  fixes f :: "'k \<times> 'a \<Rightarrow> 'b::linorder"
  assumes "qs \<noteq> []"
    and "\<forall>p\<in>set qs. \<forall>q\<in>set qs. lt (fst p) (fst q) = (f p < f q)"
  shows "\<exists>a p b. qs = a @ p # b \<and> last (stable_sort lt qs) = p
           \<and> (\<forall>q\<in>set a. f q \<le> f p) \<and> (\<forall>q\<in>set b. f q < f p)"
  using assms
proof (induction qs)
  case Nil
  then show ?case by simp
next
  case (Cons q qs)
  show ?case
  proof (cases "qs = []")
    case True
    then have "q # qs = [] @ q # [] \<and> last (stable_sort lt (q # qs)) = q
        \<and> (\<forall>x\<in>set []. f x \<le> f q) \<and> (\<forall>x\<in>set []. f x < f q)"
      by (simp add: stable_sort_def)
    then show ?thesis by blast
  next
    case False
    with Cons obtain a p b where d: "qs = a @ p # b" "last (stable_sort lt qs) = p"
        "\<forall>x\<in>set a. f x \<le> f p" "\<forall>x\<in>set b. f x < f p"
      by auto
    have l: "last (stable_sort lt (q # qs))
        = (if \<forall>y\<in>set qs. f y < f q then q else p)"
      using Cons.prems(2) d(2)
      by (simp add: stable_sort_Cons last_insort_lt set_stable_sort)
    show ?thesis
    proof (cases "\<forall>y\<in>set qs. f y < f q")
      case True
      with l have "q # qs = [] @ q # qs \<and> last (stable_sort lt (q # qs)) = q
          \<and> (\<forall>x\<in>set []. f x \<le> f q) \<and> (\<forall>x\<in>set qs. f x < f q)"
        by simp
      then show ?thesis by blast
    next
      case False
      then obtain y where y: "y \<in> set qs" "f q \<le> f y" by (auto simp: not_less)
      from y(1) d(1,3,4) have "f y \<le> f p" by (auto dest: less_imp_le)
      with y(2) have qp: "f q \<le> f p" by simp
      from l False have "last (stable_sort lt (q # qs)) = p" by simp
      with qp d have "q # qs = (q # a) @ p # b \<and> last (stable_sort lt (q # qs)) = p
          \<and> (\<forall>x\<in>set (q # a). f x \<le> f p) \<and> (\<forall>x\<in>set b. f x < f p)"
        by simp
      then show ?thesis by blast
    qed
  qed
qed


lemma py_first_rev:
  assumes "L \<noteq> []"
  shows "py_first (map snd (rev L)) = Inr (snd (last L))"
  using assms by (cases L rule: rev_cases) (simp_all add: py_first_def)

lemma sorted_first_largest:
  fixes a :: "json \<Rightarrow> rat" and k :: "json \<Rightarrow> json"
  assumes "xs \<noteq> []" and "\<forall>x\<in>set xs. amount_key x = Inr (k x)"
    and "\<forall>x\<in>set xs. num_of (k x) = Some (a x)"
  shows "\<exists>before iv after. xs = before @ iv # after
           \<and> sorted_first amount_key py_lt True xs = Inr (Some iv)
           \<and> (\<forall>c\<in>set before. a c < a iv) \<and> (\<forall>c\<in>set after. a c \<le> a iv)"
proof -
  define h where "h = (\<lambda>x. (k x, x))"
  define lt where "lt = (\<lambda>k k'. py_lt k k' = Inr True)"
  define f where "f = (\<lambda>p :: json \<times> json. a (snd p))"
  have ks: "mapE amount_key xs = Inr (map k xs)"
    using assms(2) by (rule mapE_total)
  have zip: "zip (map k xs) xs = map h xs"
    unfolding h_def by (induction xs) simp_all
  have cmp: "compare_all py_lt (map k xs) = None"
    using assms(3) by (intro compare_all_numbers) auto
  have qs: "rev (map h xs) \<noteq> []"
    using assms(1) by simp
  have ord: "\<forall>p\<in>set (rev (map h xs)). \<forall>q\<in>set (rev (map h xs)). lt (fst p) (fst q) = (f p < f q)"
    using assms(3) by (auto simp: h_def lt_def f_def py_lt_numbers)
  from last_stable_sort [OF qs ord]
  obtain A p B where d: "rev (map h xs) = A @ p # B"
      "last (stable_sort lt (rev (map h xs))) = p"
      "\<forall>q\<in>set A. f q \<le> f p" "\<forall>q\<in>set B. f q < f p"
    by blast
  from d(1) have "rev (rev (map h xs)) = rev (A @ p # B)" by simp
  then have "map h xs = rev B @ p # rev A" by simp
  then obtain before rest where b: "xs = before @ rest" "map h before = rev B" "map h rest = p # rev A"
    by (auto simp: map_eq_append_conv)
  from b(3) obtain iv after where r: "rest = iv # after" "h iv = p" "map h after = rev A"
    by (auto simp: map_eq_Cons_conv)
  have ne: "stable_sort lt (rev (map h xs)) \<noteq> []"
    using qs set_stable_sort [of lt "rev (map h xs)"] by (metis set_empty)
  have first: "sorted_first amount_key py_lt True xs = Inr (Some iv)"
  proof (cases "length xs < 2")
    case True
    with assms(1) obtain x where x: "xs = [x]"
      by (cases xs) (auto simp: less_Suc_eq_0_disj numeral_2_eq_2)
    with b(1) r(1) have "iv = x" by (cases before) simp_all
    with x ks show ?thesis
      by (simp add: sorted_first_def py_sorted_def bindE_def py_first_def)
  next
    case False
    have "snd p = iv" using r(2) by (auto simp: h_def)
    with False ks cmp zip d(2) ne show ?thesis
      by (simp add: sorted_first_def py_sorted_def bindE_def Let_def py_first_rev
               flip: lt_def)
  qed
  have lo: "\<forall>c\<in>set before. a c < a iv"
  proof
    fix c assume "c \<in> set before"
    then have "h c \<in> set (map h before)" by simp
    with b(2) have "h c \<in> set B" by simp
    with d(4) have "f (h c) < f p" by simp
    with r(2) show "a c < a iv" by (auto simp: f_def h_def)
  qed
  have hi: "\<forall>c\<in>set after. a c \<le> a iv"
  proof
    fix c assume "c \<in> set after"
    then have "h c \<in> set (map h after)" by simp
    with r(3) have "h c \<in> set A" by simp
    with d(3) have "f (h c) \<le> f p" by simp
    with r(2) show "a c \<le> a iv" by (auto simp: f_def h_def)
  qed
  from b(1) r(1) first lo hi show ?thesis by blast
qed


lemma filter_eq_split:
  "filter P xs = a @ y # b \<Longrightarrow> \<exists>a' b'. xs = a' @ y # b' \<and> filter P a' = a \<and> filter P b' = b"
proof (induction a arbitrary: xs)
  case Nil
  then have "filter P xs = y # b" by simp
  then obtain us vs where "xs = us @ y # vs" "\<forall>u\<in>set us. \<not> P u" "P y" "b = filter P vs"
    by (auto simp: filter_eq_Cons_iff)
  then have "xs = us @ y # vs \<and> filter P us = [] \<and> filter P vs = b" by simp
  then show ?case by blast
next
  case (Cons z a)
  then have "filter P xs = z # (a @ y # b)" by simp
  then obtain us vs where u: "xs = us @ z # vs" "\<forall>u\<in>set us. \<not> P u" "P z" "a @ y # b = filter P vs"
    by (auto simp: filter_eq_Cons_iff)
  from Cons.IH [of vs] u(4) obtain a' b' where "vs = a' @ y # b'" "filter P a' = a" "filter P b' = b"
    by auto
  with u have "xs = (us @ z # a') @ y # b' \<and> filter P (us @ z # a') = z # a \<and> filter P b' = b"
    by simp
  then show ?case by blast
qed

lemma tier3_test_object: "tier3_test s c = Inr b \<Longrightarrow> \<exists>kvs. c = JObj kvs"
  by (cases c) (simp_all add: tier3_test_def field_has_def bindE_def)

lemma not_paid_test_object: "\<exists>b. not_paid_test (JObj kvs) = Inr b"
  by (simp add: not_paid_test_def py_get_def bindE_def)

text \<open>
  C4, as the code has it. Let the reference miss tiers 1 to 3 on the candidate list, contain
  ``largest'', ``biggest'' or ``highest'', and contain none of the keywords the code tests
  before these (``last'', ``latest'', ``most recent'', ``oldest'', ``earliest''); let every unpaid
  candidate carry a number as its amount, integer or decimal. Then the result is no match when
  every candidate is paid, and otherwise the unpaid candidate of maximum amount that comes
  first in the list: every unpaid candidate before it has a strictly smaller amount, every one
  after it an amount that is not larger.
\<close>

theorem largest_keyword_first_maximal_unpaid:
  assumes s: "s = str_strip (str_lower r)"
    and t1: "\<forall>sid. re_search inv_pattern s = Some sid \<longrightarrow> (\<forall>c\<in>set items. tier1_test sid c = Inr False)"
    and t2: "\<forall>sid. re_search digits_2_6 s = Some sid \<longrightarrow> (\<forall>c\<in>set items. tier2_test sid c = Inr False)"
    and t3: "\<forall>c\<in>set items. tier3_test s c = Inr False"
    and kw: "str_contains ''largest'' s \<or> str_contains ''biggest'' s \<or> str_contains ''highest'' s"
    and earlier: "\<not> (str_contains ''last'' s \<or> str_contains ''latest'' s \<or> str_contains ''most recent'' s
                     \<or> str_contains ''oldest'' s \<or> str_contains ''earliest'' s)"
    and amounts: "\<forall>c\<in>set items. not_paid_test c = Inr True \<longrightarrow> amount_of c \<noteq> None"
  shows "if \<forall>c\<in>set items. not_paid_test c = Inr False
         then find_invoice_by_spoken_local dt (JStr r) (JArr items) = Inr None
         else \<exists>before iv after n.
                items = before @ iv # after
              \<and> find_invoice_by_spoken_local dt (JStr r) (JArr items) = Inr (Some iv)
              \<and> not_paid_test iv = Inr True \<and> amount_of iv = Some n
              \<and> (\<forall>c\<in>set before. not_paid_test c = Inr True \<longrightarrow> (\<exists>m. amount_of c = Some m \<and> m < n))
              \<and> (\<forall>c\<in>set after. not_paid_test c = Inr True \<longrightarrow> (\<exists>m. amount_of c = Some m \<and> m \<le> n))"
proof -
  define U where "U = (\<lambda>c. not_paid_test c = Inr True)"
  define k where "k = (\<lambda>c. case amount_key c of Inr v \<Rightarrow> v | Inl e \<Rightarrow> JNull)"
  define a where "a = (\<lambda>c. case amount_of c of Some q \<Rightarrow> q | None \<Rightarrow> 0)"
  from kw have s_ne: "s \<noteq> []" by auto
  have r_ne: "r \<noteq> []"
  proof
    assume "r = []"
    with s have "s = []" by (simp add: str_strip_def str_lower_def)
    with s_ne show False by simp
  qed
  have np: "\<forall>c\<in>set items. \<exists>b. not_paid_test c = Inr b"
    using t3 by (auto dest!: bspec tier3_test_object intro: not_paid_test_object)
  have fe: "filterE not_paid_test items = Inr (filter U items)"
    unfolding U_def using np by (rule filterE_total)
  have kt: "keyword_tier dt s items
      = (if filter U items = [] then Inr None
         else sorted_first amount_key py_lt True (filter U items))"
    using kw earlier by (simp add: keyword_tier_def fe bindE_def)
  have tt: "text_tier dt s (JArr items) = keyword_tier dt s items"
    using t3 by (simp add: text_tier_def bindE_def first_match_none)
  have dg: "digits_tier dt s (JArr items) = text_tier dt s (JArr items)"
    using t2 by (simp add: digits_tier_def bindE_def first_match_none split: option.splits)
  have fi: "find_invoice_by_spoken_local dt (JStr r) (JArr items) = digits_tier dt s (JArr items)"
    using t1 r_ne
    by (simp add: find_invoice_by_spoken_local_def bindE_def first_match_none Let_def
             flip: s split: option.splits)
  note res = fi dg tt kt
  show ?thesis
  proof (cases "\<forall>c\<in>set items. not_paid_test c = Inr False")
    case True
    then have "filter U items = []" by (auto simp: U_def filter_empty_conv)
    with True show ?thesis by (simp add: res)
  next
    case False
    then obtain c where c: "c \<in> set items" "not_paid_test c \<noteq> Inr False" by blast
    with np have "U c" by (auto simp: U_def)
    with c(1) have ne: "filter U items \<noteq> []" by (auto simp: filter_empty_conv)
    have am: "\<forall>x\<in>set (filter U items). amount_of x = Some (a x)"
      using amounts by (auto simp: U_def a_def)
    have key: "\<forall>x\<in>set (filter U items). amount_key x = Inr (k x)"
      using am by (auto simp: amount_of_def k_def split: sum.splits)
    have num: "\<forall>x\<in>set (filter U items). num_of (k x) = Some (a x)"
      using am by (auto simp: amount_of_def k_def split: sum.splits)
    from sorted_first_largest [OF ne key num]
    obtain before' iv after' where d: "filter U items = before' @ iv # after'"
        "sorted_first amount_key py_lt True (filter U items) = Inr (Some iv)"
        "\<forall>c\<in>set before'. a c < a iv" "\<forall>c\<in>set after'. a c \<le> a iv"
      by blast
    from filter_eq_split [OF d(1)]
    obtain before after where e: "items = before @ iv # after"
        "filter U before = before'" "filter U after = after'"
      by blast
    have iv: "iv \<in> set (filter U items)" using d(1) by simp
    then have uiv: "not_paid_test iv = Inr True" by (simp add: U_def)
    from iv am have aiv: "amount_of iv = Some (a iv)" by blast
    have lo: "\<forall>c\<in>set before. not_paid_test c = Inr True \<longrightarrow> (\<exists>m. amount_of c = Some m \<and> m < a iv)"
    proof (intro ballI impI)
      fix c assume c: "c \<in> set before" "not_paid_test c = Inr True"
      then have "c \<in> set before'" using e(2) by (auto simp: U_def)
      with d(3) have "a c < a iv" by simp
      moreover from c e(1) am have "amount_of c = Some (a c)" by (auto simp: U_def)
      ultimately show "\<exists>m. amount_of c = Some m \<and> m < a iv" by blast
    qed
    have hi: "\<forall>c\<in>set after. not_paid_test c = Inr True \<longrightarrow> (\<exists>m. amount_of c = Some m \<and> m \<le> a iv)"
    proof (intro ballI impI)
      fix c assume c: "c \<in> set after" "not_paid_test c = Inr True"
      then have "c \<in> set after'" using e(3) by (auto simp: U_def)
      with d(4) have "a c \<le> a iv" by simp
      moreover from c e(1) am have "amount_of c = Some (a c)" by (auto simp: U_def)
      ultimately show "\<exists>m. amount_of c = Some m \<and> m \<le> a iv" by blast
    qed
    have "find_invoice_by_spoken_local dt (JStr r) (JArr items) = Inr (Some iv)"
      using ne d(2) by (simp add: res)
    with e(1) uiv aiv lo hi False show ?thesis by (simp only: if_False) blast
  qed
qed


theorem largest_keyword_first_maximal_unpaid_witness:
  "find_invoice_by_spoken_local iso_text_dates (JStr ''The biggest one'')
     (JArr [paid_90, unpaid_10, unpaid_50, unpaid_30_5, later_50]) = Inr (Some unpaid_50)
   \<and> (\<exists>before iv after n.
         [paid_90, unpaid_10, unpaid_50, unpaid_30_5, later_50] = before @ iv # after
       \<and> find_invoice_by_spoken_local iso_text_dates (JStr ''The biggest one'')
            (JArr [paid_90, unpaid_10, unpaid_50, unpaid_30_5, later_50]) = Inr (Some iv)
       \<and> not_paid_test iv = Inr True \<and> amount_of iv = Some n
       \<and> (\<forall>c\<in>set before. not_paid_test c = Inr True \<longrightarrow> (\<exists>m. amount_of c = Some m \<and> m < n))
       \<and> (\<forall>c\<in>set after. not_paid_test c = Inr True \<longrightarrow> (\<exists>m. amount_of c = Some m \<and> m \<le> n)))"
proof -
  let ?items = "[paid_90, unpaid_10, unpaid_50, unpaid_30_5, later_50]"
  have s: "''the biggest one'' = str_strip (str_lower ''The biggest one'')"
    by code_simp
  have p1: "re_search inv_pattern ''the biggest one'' = None"
    by code_simp
  have p2: "re_search digits_2_6 ''the biggest one'' = None"
    by code_simp
  have t1: "\<forall>sid. re_search inv_pattern ''the biggest one'' = Some sid
      \<longrightarrow> (\<forall>c\<in>set ?items. tier1_test sid c = Inr False)"
    unfolding p1 by simp
  have t2: "\<forall>sid. re_search digits_2_6 ''the biggest one'' = Some sid
      \<longrightarrow> (\<forall>c\<in>set ?items. tier2_test sid c = Inr False)"
    unfolding p2 by simp
  have "list_all (\<lambda>c. tier3_test ''the biggest one'' c = Inr False) ?items"
    by code_simp
  then have t3: "\<forall>c\<in>set ?items. tier3_test ''the biggest one'' c = Inr False"
    by (simp only: list_all_iff)
  have kw: "str_contains ''largest'' ''the biggest one'' \<or> str_contains ''biggest'' ''the biggest one''
      \<or> str_contains ''highest'' ''the biggest one''"
    by code_simp
  have earlier: "\<not> (str_contains ''last'' ''the biggest one'' \<or> str_contains ''latest'' ''the biggest one''
      \<or> str_contains ''most recent'' ''the biggest one'' \<or> str_contains ''oldest'' ''the biggest one''
      \<or> str_contains ''earliest'' ''the biggest one'')"
    by code_simp
  have "list_all (\<lambda>c. not_paid_test c = Inr True \<longrightarrow> amount_of c \<noteq> None) ?items"
    by code_simp
  then have amounts: "\<forall>c\<in>set ?items. not_paid_test c = Inr True \<longrightarrow> amount_of c \<noteq> None"
    by (simp only: list_all_iff)
  have unpaid: "\<not> (\<forall>c\<in>set ?items. not_paid_test c = Inr False)"
    by (simp add: not_paid_test_def py_get_def bindE_def unpaid_10_def)
  have v: "find_invoice_by_spoken_local iso_text_dates (JStr ''The biggest one'') (JArr ?items)
      = Inr (Some unpaid_50)"
    by code_simp
  from largest_keyword_first_maximal_unpaid
    [OF s t1 t2 t3 kw earlier amounts, of iso_text_dates] unpaid v
  show ?thesis by (simp only: if_False simp_thms)
qed

text \<open>
  C4 as stated fails: the only candidate is paid, and \<^verbatim>\<open>"largest"\<close> resolves to it all the
  same, because tier 3 finds the reference in its vendor.
\<close>

theorem largest_hits_vendor_counterexample:
  "not_paid_test largest_timber = Inr False
   \<and> find_invoice_by_spoken_local iso_text_dates (JStr ''largest'') (JArr [largest_timber])
     = Inr (Some largest_timber)"
  by code_simp

section \<open>Properties of the payment orchestration\<close>

subsection \<open>What each stage sends and answers\<close>

lemma send_log: "send bk c w = (a, w') \<Longrightarrow> calls w' = calls w @ [(c, a)]"
  by (auto simp: send_def split: prod.splits)

lemma backend_post_cases:
  assumes "backend_post bk path p w = (r, w')"
  obtains (failed) m where "calls w' = calls w @ [(Post path p, Inl m)]"
      and "r = Inl (RuntimeError (''backend_post error: '' @ m))"
    | (answered) j where "calls w' = calls w @ [(Post path p, Inr j)]" and "r = Inr j"
  using assms
  by (auto simp: backend_post_def split: prod.splits sum.splits dest!: send_log)

lemma backend_get_cases:
  assumes "backend_get bk path p w = (r, w')"
  obtains (failed) m where "calls w' = calls w @ [(Get path p, Inl m)]"
      and "r = Inl (RuntimeError (''backend_get error: '' @ m))"
    | (answered) j where "calls w' = calls w @ [(Get path p, Inr j)]" and "r = Inr j"
  using assms
  by (auto simp: backend_get_def split: prod.splits sum.splits dest!: send_log)

lemma execute_payment_cases:
  assumes "execute_payment bk i md sm mid w = (resp, w')"
  obtains (refused) q m where "calls w' = calls w @ [(Post ''/api/pay'' q, Inl m)]"
      and "resp = assistant_err (''Payment failed: backend_post error: '' @ m) 502"
    | (accepted) q j where "calls w' = calls w @ [(Post ''/api/pay'' q, Inr j)]"
      and "(\<exists>e. resp = assistant_err (''Payment failed: '' @ exn_str e) 502)
           \<or> (\<exists>body. resp = Response body 200)"
proof -
  obtain r w1 where bp: "backend_post bk ''/api/pay'' (JObj
            [(''mandateId'', mid),
             (''signedMandate'', sm),
             (''invoiceId'', i),
             (''paymentMethod'', JStr ''agent-demo-card'')]) w = (r, w1)"
    by (cases "backend_post bk ''/api/pay'' (JObj
            [(''mandateId'', mid),
             (''signedMandate'', sm),
             (''invoiceId'', i),
             (''paymentMethod'', JStr ''agent-demo-card'')]) w")
  from assms bp have w': "w' = w1"
    by (auto simp: execute_payment_def split: sum.splits)
  from bp show thesis
  proof (cases rule: backend_post_cases)
    case (failed m)
    with assms bp w' show thesis
      by (intro refused[of _ m]) (auto simp: execute_payment_def bindE_def exn_str_def)
  next
    case (answered j)
    with assms bp w' show thesis
      by (intro accepted[of _ j])
         (auto simp: execute_payment_def bindE_def payment_result_def assistant_ok_def Let_def
               split: sum.splits)
  qed
qed


lemma create_mandate_cases:
  assumes "create_mandate bk u i invoice w = (resp, w')"
  obtains (crashed) e where "py_get invoice ''amount'' = Inl e"
      and "calls w' = calls w" and "resp = Unhandled e"
    | (mandate_failed) amount m where "py_get invoice ''amount'' = Inr amount"
      and "calls w' = calls w @ [(Post ''/api/mandates'' (cart_payload u i amount), Inl m)]"
      and "resp = assistant_err (''Failed to create cart mandate: backend_post error: '' @ m) 502"
    | (mandate_malformed) amount j e where "py_get invoice ''amount'' = Inr amount"
      and "calls w' = calls w @ [(Post ''/api/mandates'' (cart_payload u i amount), Inr j)]"
      and "resp = assistant_err (''Failed to create cart mandate: '' @ exn_str e) 502"
    | (pay_failed) amount j q m where "py_get invoice ''amount'' = Inr amount"
      and "calls w' = calls w @ [(Post ''/api/mandates'' (cart_payload u i amount), Inr j),
                                 (Post ''/api/pay'' q, Inl m)]"
      and "resp = assistant_err (''Payment failed: backend_post error: '' @ m) 502"
    | (pay_answered) amount j q j' where "py_get invoice ''amount'' = Inr amount"
      and "calls w' = calls w @ [(Post ''/api/mandates'' (cart_payload u i amount), Inr j),
                                 (Post ''/api/pay'' q, Inr j')]"
      and "(\<exists>e. resp = assistant_err (''Payment failed: '' @ exn_str e) 502)
           \<or> (\<exists>body. resp = Response body 200)"
proof (cases "py_get invoice ''amount''")
  case (Inl e)
  with assms show thesis
    by (intro crashed[of e]) (auto simp: create_mandate_def)
next
  case (Inr amount)
  obtain r w1 where bp: "backend_post bk ''/api/mandates'' (cart_payload u i amount) w = (r, w1)"
    by (cases "backend_post bk ''/api/mandates'' (cart_payload u i amount) w")
  from bp show thesis
  proof (cases rule: backend_post_cases)
    case (failed m)
    with assms Inr bp show thesis
      by (intro mandate_failed[of amount m]) (auto simp: create_mandate_def bindE_def exn_str_def)
  next
    case (answered j)
    show thesis
    proof (cases "mandate_result j")
      case (Inl e)
      with assms Inr bp answered show thesis
        by (intro mandate_malformed[of amount j e]) (auto simp: create_mandate_def bindE_def)
    next
      case res: (Inr t)
      obtain md sm mid where t: "t = (md, sm, mid)" by (cases t)
      from assms Inr bp answered res t
      have ex: "execute_payment bk i md sm mid w1 = (resp, w')"
        by (auto simp: create_mandate_def bindE_def)
      from ex show thesis
      proof (cases rule: execute_payment_cases)
        case (refused q m)
        with Inr answered show thesis
          by (intro pay_failed[of amount j q m]) auto
      next
        case (accepted q j')
        with Inr answered show thesis
          by (intro pay_answered[of amount j q j']) auto
      qed
    qed
  qed
qed


lemma lookup_invoice_cases:
  assumes "lookup_invoice bk u i w = (resp, w')"
  obtains (lookup_failed) m where
        "calls w' = calls w @ [(Get (''/api/invoices/'' @ py_str i) JNull, Inl m)]"
      and "resp = assistant_err (''Invoice lookup failed: backend_get error: '' @ m) 404"
    | (lookup_malformed) j e where
        "calls w' = calls w @ [(Get (''/api/invoices/'' @ py_str i) JNull, Inr j)]"
      and "lookup_result j = Inl e"
      and "resp = assistant_err (''Invoice lookup failed: '' @ exn_str e) 404"
    | (not_found) j invoice where
        "calls w' = calls w @ [(Get (''/api/invoices/'' @ py_str i) JNull, Inr j)]"
      and "lookup_result j = Inr invoice" and "\<not> truthy invoice"
      and "resp = assistant_err ''Invoice not found'' 404"
    | (found) j invoice w1 where
        "calls w1 = calls w @ [(Get (''/api/invoices/'' @ py_str i) JNull, Inr j)]"
      and "lookup_result j = Inr invoice" and "truthy invoice"
      and "create_mandate bk u i invoice w1 = (resp, w')"
proof -
  obtain r w1 where bg: "backend_get bk (''/api/invoices/'' @ py_str i) JNull w = (r, w1)"
    by (cases "backend_get bk (''/api/invoices/'' @ py_str i) JNull w")
  from bg show thesis
  proof (cases rule: backend_get_cases)
    case (failed m)
    with assms bg show thesis
      by (intro lookup_failed[of m]) (auto simp: lookup_invoice_def bindE_def exn_str_def)
  next
    case (answered j)
    show thesis
    proof (cases "lookup_result j")
      case (Inl e)
      with assms bg answered show thesis
        by (intro lookup_malformed[of j e]) (auto simp: lookup_invoice_def bindE_def)
    next
      case (Inr invoice)
      show thesis
      proof (cases "truthy invoice")
        case False
        with assms bg answered Inr show thesis
          by (intro not_found[of j invoice]) (auto simp: lookup_invoice_def bindE_def)
      next
        case True
        with assms bg answered Inr show thesis
          by (intro found[of w1 j invoice]) (auto simp: lookup_invoice_def bindE_def)
      qed
    qed
  qed
qed

lemma resolve_and_pay_cases:
  assumes "resolve_and_pay dt bk u invoiceId voiceRef invoice_list w = (resp, w')"
  obtains (crashed) e where "w' = w" and "resp = Unhandled e"
    | (no_match) "w' = w" and "truthy voiceRef" and "\<not> truthy invoiceId"
      and "resp = assistant_err no_match_message 404"
    | (required) "w' = w" and "resp = assistant_err ''invoiceId or voiceRef required'' 400"
    | (given) "truthy invoiceId" and "lookup_invoice bk u invoiceId w = (resp, w')"
    | (resolved) iv i where "truthy voiceRef" and "\<not> truthy invoiceId"
      and "find_invoice_by_spoken_local dt voiceRef invoice_list = Inr (Some iv)"
      and "py_get iv ''invoiceId'' = Inr i" and "truthy i"
      and "lookup_invoice bk u i w = (resp, w')"
  using assms unfolding resolve_and_pay_def
  by (auto split: if_splits sum.splits option.splits)

lemma agent_pay_invoice_cases:
  assumes "agent_pay_invoice dt bk request_json w = (resp, w')"
  obtains (crashed) e where "w' = w" and "resp = Unhandled e"
      and "\<exists>e. py_get (py_or request_json (JObj [])) ''userId'' = Inl e"
    | (no_user) u where "w' = w" and "resp = assistant_err ''userId required'' 400"
      and "py_get (py_or request_json (JObj [])) ''userId'' = Inr u" and "\<not> truthy u"
    | (list_failed) u m where "py_get (py_or request_json (JObj [])) ''userId'' = Inr u" and "truthy u"
      and "calls w' = calls w @ [(Get ''/api/invoices'' (JObj [(''userId'', u)]), Inl m)]"
      and "resp = assistant_err (''Could not fetch invoices: backend_get error: '' @ m) 502"
    | (list_malformed) u j e where "py_get (py_or request_json (JObj [])) ''userId'' = Inr u" and "truthy u"
      and "calls w' = calls w @ [(Get ''/api/invoices'' (JObj [(''userId'', u)]), Inr j)]"
      and "list_result j = Inl e"
      and "resp = assistant_err (''Could not fetch invoices: '' @ exn_str e) 502"
    | (listed) u invoiceId voiceRef j invoice_list w1 where
        "py_get (py_or request_json (JObj [])) ''userId'' = Inr u" and "truthy u"
      and "py_get (py_or request_json (JObj [])) ''invoiceId'' = Inr invoiceId"
      and "py_get (py_or request_json (JObj [])) ''voiceRef'' = Inr voiceRef"
      and "calls w1 = calls w @ [(Get ''/api/invoices'' (JObj [(''userId'', u)]), Inr j)]"
      and "list_result j = Inr invoice_list"
      and "resolve_and_pay dt bk u invoiceId voiceRef invoice_list w1 = (resp, w')"
proof (cases "bindE (py_get (py_or request_json (JObj [])) ''userId'') (\<lambda>user.
                bindE (py_get (py_or request_json (JObj [])) ''invoiceId'') (\<lambda>invoiceId.
                  bindE (py_get (py_or request_json (JObj [])) ''voiceRef'') (\<lambda>voiceRef. Inr (user, invoiceId, voiceRef))))")
  case (Inl e)
  have "\<exists>e. py_get (py_or request_json (JObj [])) ''userId'' = Inl e"
  proof (cases "py_or request_json (JObj [])")
    case (JObj kvs)
    with Inl show ?thesis by (simp add: bindE_def py_get_def)
  qed (simp_all add: py_get_def)
  with assms Inl show thesis
    by (intro crashed[of e]) (auto simp: agent_pay_invoice_def Let_def)
next
  case (Inr t)
  obtain u invoiceId voiceRef where t: "t = (u, invoiceId, voiceRef)" by (cases t)
  from Inr t have g: "py_get (py_or request_json (JObj [])) ''userId'' = Inr u"
    "py_get (py_or request_json (JObj [])) ''invoiceId'' = Inr invoiceId"
    "py_get (py_or request_json (JObj [])) ''voiceRef'' = Inr voiceRef"
    by (auto simp: bindE_def split: sum.splits)
  show thesis
  proof (cases "truthy u")
    case False
    with assms Inr t g show thesis
      by (intro no_user[of u]) (auto simp: agent_pay_invoice_def Let_def)
  next
    case True
    obtain r w1 where bg: "backend_get bk ''/api/invoices'' (JObj [(''userId'', u)]) w = (r, w1)"
      by (cases "backend_get bk ''/api/invoices'' (JObj [(''userId'', u)]) w")
    from bg show thesis
    proof (cases rule: backend_get_cases)
      case (failed m)
      with assms Inr t True bg g show thesis
        by (intro list_failed[of u m]) (auto simp: agent_pay_invoice_def Let_def bindE_def exn_str_def)
    next
      case (answered j)
      show thesis
      proof (cases "list_result j")
        case (Inl e)
        with assms Inr t True bg g answered show thesis
          by (intro list_malformed[of u j e]) (auto simp: agent_pay_invoice_def Let_def bindE_def)
      next
        case res: (Inr invoice_list)
        with assms Inr t True bg g answered show thesis
          by (intro listed[of u invoiceId voiceRef w1 j invoice_list])
             (auto simp: agent_pay_invoice_def Let_def bindE_def)
      qed
    qed
  qed
qed


text \<open>Everything that a run can log after the invoice list has been fetched.\<close>

lemma lookup_invoice_log:
  assumes "lookup_invoice bk u i w = (resp, w')"
  obtains a where "calls w' = calls w @ [(Get (''/api/invoices/'' @ py_str i) JNull, a)]"
      and "\<forall>m. a = Inl m \<longrightarrow> resp = assistant_err (''Invoice lookup failed: backend_get error: '' @ m) 404"
      and "\<forall>j. a = Inr j \<longrightarrow> (\<exists>e. resp = Unhandled e)
              \<or> resp = assistant_err ''Invoice not found'' 404
              \<or> (\<exists>e. resp = assistant_err (''Invoice lookup failed: '' @ exn_str e) 404)"
    | j invoice amount b where
        "calls w' = calls w @ [(Get (''/api/invoices/'' @ py_str i) JNull, Inr j),
                               (Post ''/api/mandates'' (cart_payload u i amount), b)]"
      and "lookup_result j = Inr invoice" and "truthy invoice"
      and "py_get invoice ''amount'' = Inr amount"
      and "\<forall>m. b = Inl m \<longrightarrow> resp = assistant_err (''Failed to create cart mandate: backend_post error: '' @ m) 502"
      and "\<forall>j'. b = Inr j' \<longrightarrow> (\<exists>e. resp = assistant_err (''Failed to create cart mandate: '' @ exn_str e) 502)"
    | j invoice amount j' q c where
        "calls w' = calls w @ [(Get (''/api/invoices/'' @ py_str i) JNull, Inr j),
                               (Post ''/api/mandates'' (cart_payload u i amount), Inr j'),
                               (Post ''/api/pay'' q, c)]"
      and "lookup_result j = Inr invoice" and "truthy invoice"
      and "py_get invoice ''amount'' = Inr amount"
      and "\<forall>m. c = Inl m \<longrightarrow> resp = assistant_err (''Payment failed: backend_post error: '' @ m) 502"
      and "(\<exists>e. resp = assistant_err (''Payment failed: '' @ exn_str e) 502) \<or> (\<exists>body. resp = Response body 200)"
  using assms
proof (cases rule: lookup_invoice_cases)
  case (lookup_failed m)
  then show ?thesis by (intro that(1)[of "Inl m"]) auto
next
  case (lookup_malformed j e)
  then show ?thesis by (intro that(1)[of "Inr j"]) auto
next
  case (not_found j invoice)
  then show ?thesis by (intro that(1)[of "Inr j"]) auto
next
  case (found j invoice w1)
  from found(4) show ?thesis
  proof (cases rule: create_mandate_cases)
    case (crashed e)
    with found show ?thesis by (intro that(1)[of "Inr j"]) auto
  next
    case (mandate_failed amount m)
    with found show ?thesis by (intro that(2)[of j amount "Inl m" invoice]) auto
  next
    case (mandate_malformed amount j' e)
    with found show ?thesis by (intro that(2)[of j amount "Inr j'" invoice]) auto
  next
    case (pay_failed amount j' q m)
    with found show ?thesis
      by (intro that(3)[of j amount j' q "Inl m" invoice]) (auto simp: exn_str_def intro: exI[of _ "RuntimeError _"])
  next
    case (pay_answered amount j' q j'')
    with found show ?thesis by (intro that(3)[of j amount j' q "Inr j''" invoice]) auto
  qed
qed


lemma run_cases:
  assumes "agent_pay_invoice dt bk request_json w = (resp, w')" and "calls w = []"
  obtains (stopped_early) "calls w' = []"
      and "(\<exists>e. resp = Unhandled e \<and> (\<exists>e. py_get (py_or request_json (JObj [])) ''userId'' = Inl e))
           \<or> (resp = assistant_err ''userId required'' 400
                \<and> (\<exists>u. py_get (py_or request_json (JObj [])) ''userId'' = Inr u \<and> \<not> truthy u))"
    | (stopped_after_list) u a where
        "py_get (py_or request_json (JObj [])) ''userId'' = Inr u" and "truthy u"
      and "calls w' = [(Get ''/api/invoices'' (JObj [(''userId'', u)]), a)]"
      and "\<forall>m. a = Inl m \<longrightarrow> resp = assistant_err (''Could not fetch invoices: backend_get error: '' @ m) 502"
      and "\<forall>j. a = Inr j \<longrightarrow>
             (\<exists>e. resp = assistant_err (''Could not fetch invoices: '' @ exn_str e) 502)
             \<or> (\<exists>e. resp = Unhandled e)
             \<or> resp = assistant_err no_match_message 404
             \<or> resp = assistant_err ''invoiceId or voiceRef required'' 400"
    | (looked_up) u j i w1 where
        "py_get (py_or request_json (JObj [])) ''userId'' = Inr u" and "truthy u"
      and "calls w1 = [(Get ''/api/invoices'' (JObj [(''userId'', u)]), Inr j)]"
      and "truthy i"
      and "py_get (py_or request_json (JObj [])) ''invoiceId'' = Inr i
           \<or> (\<exists>voiceRef invoice_list iv.
                 py_get (py_or request_json (JObj [])) ''voiceRef'' = Inr voiceRef
                 \<and> list_result j = Inr invoice_list
                 \<and> find_invoice_by_spoken_local dt voiceRef invoice_list = Inr (Some iv)
                 \<and> py_get iv ''invoiceId'' = Inr i)"
      and "lookup_invoice bk u i w1 = (resp, w')"
  using assms(1)
proof (cases rule: agent_pay_invoice_cases)
  case (crashed e)
  with assms(2) show ?thesis by (intro stopped_early) auto
next
  case (no_user u)
  with assms(2) show ?thesis by (intro stopped_early) auto
next
  case (list_failed u m)
  with assms(2) show ?thesis by (intro stopped_after_list[of u "Inl m"]) auto
next
  case (list_malformed u j e)
  with assms(2) show ?thesis by (intro stopped_after_list[of u "Inr j"]) auto
next
  case (listed u invoiceId voiceRef j invoice_list w1)
  from listed(7) show ?thesis
  proof (cases rule: resolve_and_pay_cases)
    case (crashed e)
    with listed assms(2) show ?thesis by (intro stopped_after_list[of u "Inr j"]) auto
  next
    case no_match
    with listed assms(2) show ?thesis by (intro stopped_after_list[of u "Inr j"]) auto
  next
    case required
    with listed assms(2) show ?thesis by (intro stopped_after_list[of u "Inr j"]) auto
  next
    case given
    with listed assms(2) show ?thesis by (intro looked_up[of u w1 j invoiceId]) auto
  next
    case (resolved iv i)
    with listed assms(2) show ?thesis by (intro looked_up[of u w1 j i]) auto
  qed
qed

subsection \<open>The claims about the orchestration\<close>

text \<open>
  C1. In every run of the handler (started with an empty log) in which the POST to
  \<^verbatim>\<open>/api/mandates\<close> was sent and failed, the response is the failure of the mandate stage
  (status 502, ``Failed to create cart mandate'') and no POST to \<^verbatim>\<open>/api/pay\<close> was sent. That
  POST is only sent after the invoice lookup has succeeded.
\<close>

theorem mandate_failure_halts:
  assumes "agent_pay_invoice dt bk request_json w = (resp, w')" and "calls w = []"
    and "(Post ''/api/mandates'' p, Inl msg) \<in> set (calls w')"
  shows "resp = assistant_err (''Failed to create cart mandate: backend_post error: '' @ msg) 502
       \<and> (\<forall>q a. (Post ''/api/pay'' q, a) \<notin> set (calls w'))"
  using assms(1,2)
proof (cases rule: run_cases)
  case stopped_early
  with assms(3) show ?thesis by simp
next
  case (stopped_after_list u a)
  with assms(3) show ?thesis by simp
next
  case (looked_up u j i w1)
  from looked_up(6) show ?thesis
    using assms(3) looked_up(3) by (cases rule: lookup_invoice_log) auto
qed

theorem mandate_failure_halts_witness:
  "agent_pay_invoice iso_text_dates scripted pay_request
     \<lparr>bk_state = [invoices_answer, invoice_answer, Inl ''503 Server Error''], calls = []\<rparr>
   = (assistant_err ''Failed to create cart mandate: backend_post error: 503 Server Error'' 502,
      \<lparr>bk_state = [],
       calls =
         [(Get ''/api/invoices'' (JObj [(''userId'', JStr ''u1'')]), invoices_answer),
          (Get ''/api/invoices/INV-9'' JNull, invoice_answer),
          (Post ''/api/mandates'' (cart_payload (JStr ''u1'') (JStr ''INV-9'') (JInt 120)),
           Inl ''503 Server Error'')]\<rparr>)
   \<and> (\<forall>q a. (Post ''/api/pay'' q, a) \<notin> set (calls (snd (agent_pay_invoice iso_text_dates scripted
         pay_request
         \<lparr>bk_state = [invoices_answer, invoice_answer, Inl ''503 Server Error''], calls = []\<rparr>))))"
proof -
  have run: "agent_pay_invoice iso_text_dates scripted pay_request
     \<lparr>bk_state = [invoices_answer, invoice_answer, Inl ''503 Server Error''], calls = []\<rparr>
   = (assistant_err ''Failed to create cart mandate: backend_post error: 503 Server Error'' 502,
      \<lparr>bk_state = [],
       calls =
         [(Get ''/api/invoices'' (JObj [(''userId'', JStr ''u1'')]), invoices_answer),
          (Get ''/api/invoices/INV-9'' JNull, invoice_answer),
          (Post ''/api/mandates'' (cart_payload (JStr ''u1'') (JStr ''INV-9'') (JInt 120)),
           Inl ''503 Server Error'')]\<rparr>)"
    by code_simp
  from mandate_failure_halts
    [OF run, of "cart_payload (JStr ''u1'') (JStr ''INV-9'') (JInt 120)" "''503 Server Error''"]
  show ?thesis unfolding run by simp
qed

text \<open>
  C10. When the request carries a userId, the first request sent to the backend is the GET of
  \<^verbatim>\<open>/api/invoices\<close> with that userId, whether or not an invoiceId came with the request; and
  when that GET fails nothing else is sent and the response is the failure of the list fetch
  (status 502).
\<close>

theorem list_fetch_comes_first:
  assumes "agent_pay_invoice dt bk request_json w = (resp, w')" and "calls w = []"
    and "py_get (py_or request_json (JObj [])) ''userId'' = Inr user" and "truthy user"
  shows "\<exists>a rest. calls w' = (Get ''/api/invoices'' (JObj [(''userId'', user)]), a) # rest
           \<and> (\<forall>m. a = Inl m \<longrightarrow>
                 rest = [] \<and> resp = assistant_err (''Could not fetch invoices: backend_get error: '' @ m) 502)"
  using assms(1,2)
proof (cases rule: run_cases)
  case stopped_early
  with assms(3,4) show ?thesis by auto
next
  case (stopped_after_list u a)
  with assms(3,4) show ?thesis by auto
next
  case (looked_up u j i w1)
  from looked_up(6) show ?thesis
    using assms(3) looked_up(1,3) by (cases rule: lookup_invoice_log) auto
qed

theorem list_fetch_comes_first_witness:
  "py_get (py_or pay_request (JObj [])) ''userId'' = Inr (JStr ''u1'') \<and> truthy (JStr ''u1'')
   \<and> py_get (py_or pay_request (JObj [])) ''invoiceId'' = Inr (JStr ''INV-9'')
   \<and> agent_pay_invoice iso_text_dates scripted pay_request
        \<lparr>bk_state = [Inl ''timed out''], calls = []\<rparr>
      = (assistant_err ''Could not fetch invoices: backend_get error: timed out'' 502,
         \<lparr>bk_state = [],
          calls = [(Get ''/api/invoices'' (JObj [(''userId'', JStr ''u1'')]), Inl ''timed out'')]\<rparr>)
   \<and> (\<exists>a rest. calls (snd (agent_pay_invoice iso_text_dates scripted pay_request
                   \<lparr>bk_state = [Inl ''timed out''], calls = []\<rparr>))
         = (Get ''/api/invoices'' (JObj [(''userId'', JStr ''u1'')]), a) # rest)"
proof -
  have run: "agent_pay_invoice iso_text_dates scripted pay_request
        \<lparr>bk_state = [Inl ''timed out''], calls = []\<rparr>
      = (assistant_err ''Could not fetch invoices: backend_get error: timed out'' 502,
         \<lparr>bk_state = [],
          calls = [(Get ''/api/invoices'' (JObj [(''userId'', JStr ''u1'')]), Inl ''timed out'')]\<rparr>)"
    by code_simp
  have u: "py_get (py_or pay_request (JObj [])) ''userId'' = Inr (JStr ''u1'')"
    by code_simp
  have i: "py_get (py_or pay_request (JObj [])) ''invoiceId'' = Inr (JStr ''INV-9'')"
    by code_simp
  from list_fetch_comes_first [OF run _ u] u i
  show ?thesis unfolding run by simp
qed

text \<open>
  C2, as the code has it. With a userId and neither an invoiceId nor a voiceRef, the handler
  still sends one request, the GET of the user's invoices, before it validates: the response is
  the validation error (status 400, ``invoiceId or voiceRef required'') when that GET succeeds,
  and the failure of the list fetch (status 502) when it does not. Nothing else is sent.
\<close>

theorem validation_follows_list_fetch:
  assumes "agent_pay_invoice dt bk request_json w = (resp, w')" and "calls w = []"
    and "py_get (py_or request_json (JObj [])) ''userId'' = Inr user" and "truthy user"
    and "py_get (py_or request_json (JObj [])) ''invoiceId'' = Inr i" and "\<not> truthy i"
    and "py_get (py_or request_json (JObj [])) ''voiceRef'' = Inr v" and "\<not> truthy v"
  shows "\<exists>a. calls w' = [(Get ''/api/invoices'' (JObj [(''userId'', user)]), a)]
     \<and> (\<forall>m. a = Inl m \<longrightarrow>
           resp = assistant_err (''Could not fetch invoices: backend_get error: '' @ m) 502)
     \<and> (\<forall>j e. a = Inr j \<and> list_result j = Inl e \<longrightarrow>
           resp = assistant_err (''Could not fetch invoices: '' @ exn_str e) 502)
     \<and> (\<forall>j l. a = Inr j \<and> list_result j = Inr l \<longrightarrow>
           resp = assistant_err ''invoiceId or voiceRef required'' 400)"
  using assms(1)
proof (cases rule: agent_pay_invoice_cases)
  case (crashed e)
  with assms(3) show ?thesis by simp
next
  case (no_user u)
  with assms(3,4) show ?thesis by simp
next
  case (list_failed u m)
  with assms(2,3) show ?thesis by simp
next
  case (list_malformed u j e)
  with assms(2,3) show ?thesis by simp
next
  case (listed u invoiceId voiceRef j invoice_list w1)
  with assms(3,5,7) have eq: "u = user" "invoiceId = i" "voiceRef = v" by simp_all
  from listed(7) assms(6,8) have "resp = assistant_err ''invoiceId or voiceRef required'' 400" "w' = w1"
    unfolding eq resolve_and_pay_def by simp_all
  with listed(5,6) assms(2) eq show ?thesis by simp
qed

theorem validation_follows_list_fetch_witness:
  "py_get (py_or (JObj [(''userId'', JStr ''u1'')]) (JObj [])) ''userId'' = Inr (JStr ''u1'')
   \<and> py_get (py_or (JObj [(''userId'', JStr ''u1'')]) (JObj [])) ''invoiceId'' = Inr JNull
   \<and> py_get (py_or (JObj [(''userId'', JStr ''u1'')]) (JObj [])) ''voiceRef'' = Inr JNull
   \<and> agent_pay_invoice iso_text_dates scripted (JObj [(''userId'', JStr ''u1'')])
        \<lparr>bk_state = [invoices_answer], calls = []\<rparr>
      = (assistant_err ''invoiceId or voiceRef required'' 400,
         \<lparr>bk_state = [],
          calls = [(Get ''/api/invoices'' (JObj [(''userId'', JStr ''u1'')]), invoices_answer)]\<rparr>)
   \<and> (\<exists>a. calls (snd (agent_pay_invoice iso_text_dates scripted (JObj [(''userId'', JStr ''u1'')])
                \<lparr>bk_state = [invoices_answer], calls = []\<rparr>))
         = [(Get ''/api/invoices'' (JObj [(''userId'', JStr ''u1'')]), a)])"
proof -
  have run: "agent_pay_invoice iso_text_dates scripted (JObj [(''userId'', JStr ''u1'')])
        \<lparr>bk_state = [invoices_answer], calls = []\<rparr>
      = (assistant_err ''invoiceId or voiceRef required'' 400,
         \<lparr>bk_state = [],
          calls = [(Get ''/api/invoices'' (JObj [(''userId'', JStr ''u1'')]), invoices_answer)]\<rparr>)"
    by code_simp
  have u: "py_get (py_or (JObj [(''userId'', JStr ''u1'')]) (JObj [])) ''userId'' = Inr (JStr ''u1'')"
    by code_simp
  have i: "py_get (py_or (JObj [(''userId'', JStr ''u1'')]) (JObj [])) ''invoiceId'' = Inr JNull"
    by code_simp
  have v: "py_get (py_or (JObj [(''userId'', JStr ''u1'')]) (JObj [])) ''voiceRef'' = Inr JNull"
    by code_simp
  from validation_follows_list_fetch [OF run _ u _ i _ v] u i v
  show ?thesis unfolding run by simp
qed

text \<open>
  C2 as stated fails: with a userId only and a backend that does not answer, the handler has
  sent a request and the response is the backend failure, not the validation error.
\<close>

theorem validation_not_immediate_counterexample:
  "agent_pay_invoice iso_text_dates scripted (JObj [(''userId'', JStr ''u1'')])
     \<lparr>bk_state = [Inl ''timed out''], calls = []\<rparr>
   = (assistant_err ''Could not fetch invoices: backend_get error: timed out'' 502,
      \<lparr>bk_state = [],
       calls = [(Get ''/api/invoices'' (JObj [(''userId'', JStr ''u1'')]), Inl ''timed out'')]\<rparr>)"
  by code_simp

text \<open>
  C5, as the code has it. A request to the backend that fails is answered with status 502 at
  the list fetch, at the mandate and at the payment, and with status 404 at the lookup of the
  invoice. Status 404 is therefore the response in three cases: the resolver found no
  candidate, the lookup returned no invoice, and the lookup itself failed.
\<close>

theorem backend_failure_status_by_stage:
  assumes "agent_pay_invoice dt bk request_json w = (resp, w')" and "calls w = []"
  shows "(\<forall>p m. (Get ''/api/invoices'' (JObj p), Inl m) \<in> set (calls w') \<longrightarrow>
            resp = assistant_err (''Could not fetch invoices: backend_get error: '' @ m) 502)
       \<and> (\<forall>path m. (Get path JNull, Inl m) \<in> set (calls w') \<longrightarrow>
            resp = assistant_err (''Invoice lookup failed: backend_get error: '' @ m) 404)
       \<and> (\<forall>p m. (Post ''/api/mandates'' p, Inl m) \<in> set (calls w') \<longrightarrow>
            resp = assistant_err (''Failed to create cart mandate: backend_post error: '' @ m) 502)
       \<and> (\<forall>p m. (Post ''/api/pay'' p, Inl m) \<in> set (calls w') \<longrightarrow>
            resp = assistant_err (''Payment failed: backend_post error: '' @ m) 502)
       \<and> (\<forall>body. resp = Response body 404 \<longrightarrow>
            resp = assistant_err no_match_message 404
            \<or> resp = assistant_err ''Invoice not found'' 404
            \<or> (\<exists>e. resp = assistant_err (''Invoice lookup failed: '' @ exn_str e) 404))"
  using assms(1,2)
proof (cases rule: run_cases)
  case stopped_early
  then show ?thesis by (auto simp: assistant_err_def)
next
  case (stopped_after_list u a)
  then show ?thesis by (cases a) (auto simp: assistant_err_def)
next
  case (looked_up u j i w1)
  from looked_up(6) show ?thesis
    using looked_up(3)
  proof (cases rule: lookup_invoice_log)
    case (1 a)
    with looked_up(3) show ?thesis
      by (cases a) (auto simp: assistant_err_def exn_str_def intro: exI[of _ "RuntimeError _"])
  next
    case (2 j' invoice amount b)
    with looked_up(3) show ?thesis by (cases b) (auto simp: assistant_err_def)
  next
    case (3 j' invoice amount j'' q c)
    with looked_up(3) show ?thesis by (cases c) (auto simp: assistant_err_def)
  qed
qed


theorem backend_failure_status_by_stage_witness:
  "agent_pay_invoice iso_text_dates scripted pay_request
     \<lparr>bk_state = [invoices_answer, invoice_answer, mandate_answer, Inl ''declined''], calls = []\<rparr>
   = (assistant_err ''Payment failed: backend_post error: declined'' 502,
      \<lparr>bk_state = [],
       calls =
         [(Get ''/api/invoices'' (JObj [(''userId'', JStr ''u1'')]), invoices_answer),
          (Get ''/api/invoices/INV-9'' JNull, invoice_answer),
          (Post ''/api/mandates'' (cart_payload (JStr ''u1'') (JStr ''INV-9'') (JInt 120)), mandate_answer),
          (Post ''/api/pay''
             (JObj [(''mandateId'', JStr ''m-1''), (''signedMandate'', JStr ''sig''),
                    (''invoiceId'', JStr ''INV-9''), (''paymentMethod'', JStr ''agent-demo-card'')]),
           Inl ''declined'')]\<rparr>)"
proof -
  have run: "agent_pay_invoice iso_text_dates scripted pay_request
     \<lparr>bk_state = [invoices_answer, invoice_answer, mandate_answer, Inl ''declined''], calls = []\<rparr>
   = (assistant_err ''Payment failed: backend_post error: declined'' 502,
      \<lparr>bk_state = [],
       calls =
         [(Get ''/api/invoices'' (JObj [(''userId'', JStr ''u1'')]), invoices_answer),
          (Get ''/api/invoices/INV-9'' JNull, invoice_answer),
          (Post ''/api/mandates'' (cart_payload (JStr ''u1'') (JStr ''INV-9'') (JInt 120)), mandate_answer),
          (Post ''/api/pay''
             (JObj [(''mandateId'', JStr ''m-1''), (''signedMandate'', JStr ''sig''),
                    (''invoiceId'', JStr ''INV-9''), (''paymentMethod'', JStr ''agent-demo-card'')]),
           Inl ''declined'')]\<rparr>)"
    by code_simp
  from backend_failure_status_by_stage [OF run]
  show ?thesis unfolding run by simp
qed

text \<open>
  C5 as stated fails: the lookup of the invoice is refused by the backend, and the response
  has status 404, not 502.
\<close>

theorem lookup_failure_is_404_counterexample:
  "agent_pay_invoice iso_text_dates scripted pay_request
     \<lparr>bk_state = [invoices_answer, Inl ''connection refused''], calls = []\<rparr>
   = (assistant_err ''Invoice lookup failed: backend_get error: connection refused'' 404,
      \<lparr>bk_state = [],
       calls =
         [(Get ''/api/invoices'' (JObj [(''userId'', JStr ''u1'')]), invoices_answer),
          (Get ''/api/invoices/INV-9'' JNull, Inl ''connection refused'')]\<rparr>)"
  by code_simp

text \<open>
  C7. Whenever the lookup of the invoice has succeeded and returned a non-empty invoice object,
  the handler has sent a POST to \<^verbatim>\<open>/api/mandates\<close>, and the body of every such POST is
  exactly userId, type \<^verbatim>\<open>"Cart"\<close>, action \<^verbatim>\<open>"Pay invoice <invoiceId>"\<close>, amountLimit and
  invoiceId, in this order: userId is the one of the request, invoiceId the one the invoice was
  looked up with (given in the request, or read from the invoice the resolver returned), and
  amountLimit the amount of the invoice the lookup returned (\<^verbatim>\<open>None\<close> when it has none).
\<close>

theorem cart_mandate_body:
  assumes "agent_pay_invoice dt bk request_json w = (resp, w')" and "calls w = []"
    and "(Get path JNull, Inr inv_res) \<in> set (calls w')"
    and "lookup_result inv_res = Inr (JObj kvs)" and "kvs \<noteq> []"
  shows "\<exists>user invoiceId a.
           py_get (py_or request_json (JObj [])) ''userId'' = Inr user
         \<and> path = ''/api/invoices/'' @ py_str invoiceId
         \<and> (py_get (py_or request_json (JObj [])) ''invoiceId'' = Inr invoiceId
              \<or> (\<exists>voiceRef j invoice_list iv.
                    py_get (py_or request_json (JObj [])) ''voiceRef'' = Inr voiceRef
                  \<and> (Get ''/api/invoices'' (JObj [(''userId'', user)]), Inr j) \<in> set (calls w')
                  \<and> list_result j = Inr invoice_list
                  \<and> find_invoice_by_spoken_local dt voiceRef invoice_list = Inr (Some iv)
                  \<and> py_get iv ''invoiceId'' = Inr invoiceId))
         \<and> (Post ''/api/mandates''
               (JObj [(''userId'', user),
                      (''type'', JStr ''Cart''),
                      (''action'', JStr (''Pay invoice '' @ py_str invoiceId)),
                      (''amountLimit'', case map_of kvs ''amount'' of Some v \<Rightarrow> v | None \<Rightarrow> JNull),
                      (''invoiceId'', invoiceId)]), a) \<in> set (calls w')
         \<and> (\<forall>p b. (Post ''/api/mandates'' p, b) \<in> set (calls w') \<longrightarrow>
               p = JObj [(''userId'', user),
                      (''type'', JStr ''Cart''),
                      (''action'', JStr (''Pay invoice '' @ py_str invoiceId)),
                      (''amountLimit'', case map_of kvs ''amount'' of Some v \<Rightarrow> v | None \<Rightarrow> JNull),
                      (''invoiceId'', invoiceId)])"
  using assms(1,2)
proof (cases rule: run_cases)
  case stopped_early
  with assms(3) show ?thesis by simp
next
  case (stopped_after_list u a)
  with assms(3) show ?thesis by simp
next
  case (looked_up u j i w1)
  have origin: "py_get (py_or request_json (JObj [])) ''invoiceId'' = Inr i
      \<or> (\<exists>voiceRef j' invoice_list iv.
            py_get (py_or request_json (JObj [])) ''voiceRef'' = Inr voiceRef
          \<and> (Get ''/api/invoices'' (JObj [(''userId'', u)]), Inr j') \<in> set (calls w1)
          \<and> list_result j' = Inr invoice_list
          \<and> find_invoice_by_spoken_local dt voiceRef invoice_list = Inr (Some iv)
          \<and> py_get iv ''invoiceId'' = Inr i)"
    using looked_up(3,5) by auto
  from looked_up(6) show ?thesis
  proof (cases rule: lookup_invoice_cases)
    case (lookup_failed m)
    with assms(3) looked_up(3) show ?thesis by simp
  next
    case (lookup_malformed j' e)
    with assms(3,4) looked_up(3) show ?thesis by auto
  next
    case (not_found j' invoice)
    with assms(3,4,5) looked_up(3) show ?thesis by auto
  next
    case (found j' invoice w2)
    have am: "py_get (JObj kvs) ''amount'' = Inr (case map_of kvs ''amount'' of Some v \<Rightarrow> v | None \<Rightarrow> JNull)"
      by (simp add: py_get_def)
    from found(4) show ?thesis
    proof (cases rule: create_mandate_cases)
      case (crashed e)
      with found(1,2) assms(3,4) looked_up(3) am show ?thesis by auto
    next
      case (mandate_failed amount m)
      with found(1,2) assms(3,4) looked_up(1,3) am origin show ?thesis
        by (auto simp: cart_payload_def)
    next
      case (mandate_malformed amount j'' e)
      with found(1,2) assms(3,4) looked_up(1,3) am origin show ?thesis
        by (auto simp: cart_payload_def)
    next
      case (pay_failed amount j'' q m)
      with found(1,2) assms(3,4) looked_up(1,3) am origin show ?thesis
        by (auto simp: cart_payload_def)
    next
      case (pay_answered amount j'' q j''')
      with found(1,2) assms(3,4) looked_up(1,3) am origin show ?thesis
        by (auto simp: cart_payload_def)
    qed
  qed
qed


theorem cart_mandate_body_witness:
  "lookup_result (JObj [(''data'', JObj [(''invoice'', acme_invoice)])]) = Inr acme_invoice
   \<and> (\<exists>a. (Post ''/api/mandates''
               (JObj [(''userId'', JStr ''u1''),
                      (''type'', JStr ''Cart''),
                      (''action'', JStr ''Pay invoice INV-9''),
                      (''amountLimit'', JInt 120),
                      (''invoiceId'', JStr ''INV-9'')]), a)
         \<in> set (calls (snd (agent_pay_invoice iso_text_dates scripted pay_request
               \<lparr>bk_state = [invoices_answer, invoice_answer, mandate_answer, receipt_answer],
                calls = []\<rparr>))))"
proof -
  obtain resp w' where run: "agent_pay_invoice iso_text_dates scripted pay_request
      \<lparr>bk_state = [invoices_answer, invoice_answer, mandate_answer, receipt_answer], calls = []\<rparr>
      = (resp, w')"
    by (cases "agent_pay_invoice iso_text_dates scripted pay_request
      \<lparr>bk_state = [invoices_answer, invoice_answer, mandate_answer, receipt_answer], calls = []\<rparr>")
  have log: "calls (snd (agent_pay_invoice iso_text_dates scripted pay_request
      \<lparr>bk_state = [invoices_answer, invoice_answer, mandate_answer, receipt_answer], calls = []\<rparr>))
    = [(Get ''/api/invoices'' (JObj [(''userId'', JStr ''u1'')]), invoices_answer),
       (Get ''/api/invoices/INV-9'' JNull, invoice_answer),
       (Post ''/api/mandates'' (cart_payload (JStr ''u1'') (JStr ''INV-9'') (JInt 120)), mandate_answer),
       (Post ''/api/pay''
          (JObj [(''mandateId'', JStr ''m-1''), (''signedMandate'', JStr ''sig''),
                 (''invoiceId'', JStr ''INV-9''), (''paymentMethod'', JStr ''agent-demo-card'')]),
        receipt_answer)]"
    by code_simp
  have lr: "lookup_result (JObj [(''data'', JObj [(''invoice'', acme_invoice)])])
      = Inr (JObj [(''invoiceId'', JStr ''INV-9''), (''shortId'', JStr ''9''), (''vendor'', JStr ''Acme''),
                   (''amount'', JInt 120), (''paid'', JBool False)])"
    by code_simp
  have mem: "(Get ''/api/invoices/INV-9'' JNull, Inr (JObj [(''data'', JObj [(''invoice'', acme_invoice)])]))
      \<in> set (calls w')"
    using log run by (simp add: invoice_answer_def)
  from cart_mandate_body [OF run _ mem lr]
  have "\<exists>a. (Post ''/api/mandates''
               (JObj [(''userId'', JStr ''u1''),
                      (''type'', JStr ''Cart''),
                      (''action'', JStr ''Pay invoice INV-9''),
                      (''amountLimit'', JInt 120),
                      (''invoiceId'', JStr ''INV-9'')]), a) \<in> set (calls w')"
    using log run by (auto simp: cart_payload_def)
  with lr run show ?thesis by (simp add: acme_invoice_def)
qed

end
